theory Spec2Isabelle
  imports Main
begin

section \<open>Introspection data consumed by the call bridge\<close>

text \<open>
  The bridge of \<^verbatim>\<open>callable.c\<close> reads every signature through the introspection
  collaborator. Its answers are modelled as plain data: a type descriptor is a record of the
  values the accessor functions return for it.
\<close>

datatype GITypeTag =
    VOID | BOOLEAN | INT8 | UINT8 | INT16 | UINT16 | INT32 | UINT32 | INT64 | UINT64
  | FLOAT | DOUBLE | GTYPE | UTF8 | FILENAME | ARRAY | INTERFACE | GLIST | GSLIST | GHASH
  | ERROR | TAG_OTHER nat

datatype GIInfoType =
    INFO_FUNCTION | INFO_CALLBACK | INFO_STRUCT | INFO_ENUM | INFO_FLAGS | INFO_OBJECT
  | INFO_INTERFACE | INFO_UNION | INFO_SIGNAL | INFO_VFUNC | INFO_OTHER nat

datatype GIArrayType = ARRAY_TYPE_C | ARRAY_TYPE_ARRAY | ARRAY_TYPE_PTR_ARRAY | ARRAY_TYPE_BYTE_ARRAY

datatype GIDirection = DIRECTION_IN | DIRECTION_OUT | DIRECTION_INOUT

datatype GITransfer = TRANSFER_NOTHING | TRANSFER_CONTAINER | TRANSFER_EVERYTHING

datatype GIFunctionInfoFlags = IS_METHOD | IS_CONSTRUCTOR | IS_GETTER | IS_SETTER | WRAPS_VFUNC | THROWS

text \<open>The interface description behind a type of tag \<open>INTERFACE\<close>: its kind and, for
  enumerations and flags, the tag of the storage type.\<close>

record GIBaseInfo =
  base_type :: GIInfoType
  storage_type :: GITypeTag

record GITypeInfo =
  tag :: GITypeTag
  is_pointer :: bool
  array_type :: GIArrayType
  array_length :: int
  interface :: GIBaseInfo

record GIArgInfo =
  arg_name :: string
  arg_type :: GITypeInfo
  arg_direction :: GIDirection
  arg_ownership_transfer :: GITransfer
  arg_closure :: int
  arg_destroy :: int
  arg_caller_allocates :: bool

text \<open>\<open>type_name\<close> holds the pieces that \<^verbatim>\<open>lgi_type_get_name\<close> pushes for the
  description (their concatenation is the qualified name); \<open>container_type\<close> is the kind of
  the description's container, used to marshal the receiver.\<close>

record GICallableInfo =
  info_type :: GIInfoType
  info_namespace :: string
  info_name :: string
  type_name :: "string list"
  callable_args :: "GIArgInfo list"
  return_type :: GITypeInfo
  caller_owns :: GITransfer
  function_flags :: "GIFunctionInfoFlags set"
  function_symbol :: string
  container_type :: GIInfoType

section \<open>Parameters and native ABI types\<close>

datatype ffi_type =
    ffi_type_void | ffi_type_uint | ffi_type_sint8 | ffi_type_uint8 | ffi_type_sint16
  | ffi_type_uint16 | ffi_type_sint32 | ffi_type_uint32 | ffi_type_sint64 | ffi_type_uint64
  | ffi_type_float | ffi_type_double | ffi_type_pointer

text \<open>\<^verbatim>\<open>struct _Param\<close>.\<close>

record Param =
  ti :: GITypeInfo
  ai :: GIArgInfo
  dir :: GIDirection
  transfer :: GITransfer
  internal :: bool

text \<open>\<^verbatim>\<open>get_simple_ffi_type\<close>: \<open>None\<close> is the \<^verbatim>\<open>NULL\<close> of the default branch. The
  first argument is the build constant \<^verbatim>\<open>GLIB_SIZEOF_SIZE_T\<close>.\<close>

fun get_simple_ffi_type :: "nat \<Rightarrow> GITypeTag \<Rightarrow> ffi_type option" where
  "get_simple_ffi_type sz VOID = Some ffi_type_void"
| "get_simple_ffi_type sz BOOLEAN = Some ffi_type_uint"
| "get_simple_ffi_type sz INT8 = Some ffi_type_sint8"
| "get_simple_ffi_type sz UINT8 = Some ffi_type_uint8"
| "get_simple_ffi_type sz INT16 = Some ffi_type_sint16"
| "get_simple_ffi_type sz UINT16 = Some ffi_type_uint16"
| "get_simple_ffi_type sz INT32 = Some ffi_type_sint32"
| "get_simple_ffi_type sz UINT32 = Some ffi_type_uint32"
| "get_simple_ffi_type sz INT64 = Some ffi_type_sint64"
| "get_simple_ffi_type sz UINT64 = Some ffi_type_uint64"
| "get_simple_ffi_type sz FLOAT = Some ffi_type_float"
| "get_simple_ffi_type sz DOUBLE = Some ffi_type_double"
| "get_simple_ffi_type sz GTYPE = Some (if sz = 4 then ffi_type_uint32 else ffi_type_uint64)"
| "get_simple_ffi_type sz _ = None"

text \<open>\<^verbatim>\<open>get_ffi_type\<close>.\<close>

definition get_ffi_type :: "nat \<Rightarrow> Param \<Rightarrow> ffi_type" where
  "get_ffi_type sz param =
     (let tg = tag (ti param);
          ffi = (if is_pointer (ti param) then Some ffi_type_pointer
                 else get_simple_ffi_type sz tg);
          ffi = (if ffi = None then
                   (if tg = INTERFACE then
                      (let ii = interface (ti param) in
                       case base_type ii of
                         INFO_ENUM \<Rightarrow> get_simple_ffi_type sz (storage_type ii)
                       | INFO_FLAGS \<Rightarrow> get_simple_ffi_type sz (storage_type ii)
                       | _ \<Rightarrow> ffi)
                    else ffi)
                 else ffi)
      in case ffi of Some t \<Rightarrow> t | None \<Rightarrow> ffi_type_pointer)"

text \<open>The slot type that \<^verbatim>\<open>lgi_callable_create\<close> stores for a declared parameter:
  \<^verbatim>\<open>(param->dir == GI_DIRECTION_IN) ? get_ffi_type(param) : &ffi_type_pointer\<close>.\<close>

definition param_ffi_arg :: "nat \<Rightarrow> Param \<Rightarrow> ffi_type" where
  "param_ffi_arg sz param =
     (if dir param = DIRECTION_IN then get_ffi_type sz param else ffi_type_pointer)"

section \<open>Call Plan construction and cache\<close>

record ffi_cif =
  cif_nargs :: nat
  cif_rtype :: ffi_type
  cif_arg_types :: "ffi_type list"

text \<open>\<^verbatim>\<open>struct _Callable\<close>. \<open>address\<close> is \<open>None\<close> for \<^verbatim>\<open>NULL\<close>; \<open>nargs\<close> is the
  six-bit field of the structure.\<close>

record Callable =
  info :: GICallableInfo
  address :: "nat option"
  has_self :: bool
  throws :: bool
  nargs :: nat
  cif :: ffi_cif
  retval :: Param
  params :: "Param list"

datatype lval =
    LNil | LBool bool | LNumber int | LString string | LLightUserdata nat
  | LTable nat | LFunction nat | LUserdata nat | LThread nat

datatype lua_type =
    LUA_TNONE | LUA_TNIL | LUA_TBOOLEAN | LUA_TLIGHTUSERDATA | LUA_TNUMBER | LUA_TSTRING
  | LUA_TTABLE | LUA_TFUNCTION | LUA_TUSERDATA | LUA_TTHREAD

text \<open>What leaves a function of the bridge other than by returning: an error raised with
  \<^verbatim>\<open>luaL_error\<close> (with its message), an error value raised by \<^verbatim>\<open>lua_error\<close> or left
  to propagate by \<^verbatim>\<open>lua_call\<close>, the argument type error of \<^verbatim>\<open>luaL_typerror\<close>
  (argument, expected type name, actual type), a failed \<^verbatim>\<open>g_assert\<close>, and a read past
  the end of the native argument frame (with the index read).\<close>

datatype lua_error =
    LuaError string
  | Thrown lval
  | TypeError nat string lua_type
  | AssertionFailed
  | InvalidRead nat

text \<open>The part of the interpreter state that \<^verbatim>\<open>lgi_callable_create\<close> touches: the cache
  table stored in the registry under \<^verbatim>\<open>&callable_cache\<close>, and the userdata blocks, named by
  the order of their allocation. A block is filled field by field in the source; the model
  records its contents when the cif is prepared, and a block abandoned by \<^verbatim>\<open>luaL_error\<close>
  stays allocated and unreachable.\<close>

record lua_State =
  callable_cache :: "string \<rightharpoonup> nat"
  n_userdata :: nat
  userdata :: "nat \<rightharpoonup> Callable"

text \<open>The collaborators of plan construction: the build constant \<^verbatim>\<open>GLIB_SIZEOF_SIZE_T\<close>,
  the numeric value of each \<^verbatim>\<open>GIInfoType\<close> enumerator, \<^verbatim>\<open>g_typelib_symbol\<close>,
  \<^verbatim>\<open>g_module_error\<close>, and whether \<^verbatim>\<open>ffi_prep_cif\<close> answers \<^verbatim>\<open>FFI_OK\<close>.\<close>

record gi_env =
  sizeof_size_t :: nat
  info_type_code :: "GIInfoType \<Rightarrow> nat"
  typelib_symbol :: "string \<Rightarrow> nat option"
  module_error :: string
  ffi_prep_cif :: "nat \<Rightarrow> ffi_type \<Rightarrow> ffi_type list \<Rightarrow> bool"

text \<open>The decimal rendering that \<^verbatim>\<open>lua_concat\<close> gives the integer pushed by
  \<^verbatim>\<open>lua_pushinteger\<close>.\<close>

function string_of_nat :: "nat \<Rightarrow> string" where
  "string_of_nat n =
     (if n < 10 then [char_of (48 + n)]
      else string_of_nat (n div 10) @ [char_of (48 + n mod 10)])"
  by pat_completeness auto
termination
  by (relation "measure id") auto

declare string_of_nat.simps [simp del]

text \<open>The key built on the stack: the kind, a colon, and the name pieces, concatenated.\<close>

definition cache_key :: "gi_env \<Rightarrow> GICallableInfo \<Rightarrow> string" where
  "cache_key env gi =
     concat (string_of_nat (info_type_code env (info_type gi)) # '':'' # type_name gi)"

text \<open>A \<^verbatim>\<open>Param\<close> slot of the fresh userdata block, before anything is stored in it. The
  block is not zeroed by the allocator; the values below stand for its unread contents.\<close>

definition unset_typeinfo :: GITypeInfo where
  "unset_typeinfo = \<lparr>tag = VOID, is_pointer = False, array_type = ARRAY_TYPE_C,
     array_length = 0, interface = \<lparr>base_type = INFO_OTHER 0, storage_type = VOID\<rparr>\<rparr>"

definition unset_param :: Param where
  "unset_param = \<lparr>ti = unset_typeinfo,
     ai = \<lparr>arg_name = [], arg_type = unset_typeinfo, arg_direction = DIRECTION_IN,
           arg_ownership_transfer = TRANSFER_NOTHING, arg_closure = 0, arg_destroy = 0,
           arg_caller_allocates = False\<rparr>,
     dir = DIRECTION_IN, transfer = TRANSFER_NOTHING, internal = False\<rparr>"

text \<open>\<^verbatim>\<open>callable->params[arg].internal = TRUE\<close>.\<close>

definition mark_internal :: "nat \<Rightarrow> Param list \<Rightarrow> Param list" where
  "mark_internal arg ps = ps[arg := (ps ! arg)\<lparr>internal := True\<rparr>]"

text \<open>\<^verbatim>\<open>callable_mark_array_length\<close>; the first argument is \<^verbatim>\<open>callable->nargs\<close>.\<close>

definition callable_mark_array_length :: "nat \<Rightarrow> Param list \<Rightarrow> GITypeInfo \<Rightarrow> Param list" where
  "callable_mark_array_length c_nargs ps t =
     (if tag t = ARRAY \<and> array_type t = ARRAY_TYPE_C then
        (let arg = array_length t in
         if arg \<ge> 0 \<and> arg < int c_nargs then mark_internal (nat arg) ps else ps)
      else ps)"

text \<open>One round of the argument loop of \<^verbatim>\<open>lgi_callable_create\<close>, for index \<open>argi\<close>:
  \<open>n\<close> is the local \<^verbatim>\<open>nargs\<close>, \<open>c_nargs\<close> the bit-field \<^verbatim>\<open>callable->nargs\<close>. The state
  is the parameter array and the native slot types written so far.\<close>

definition process_arg ::
  "nat \<Rightarrow> nat \<Rightarrow> nat \<Rightarrow> GICallableInfo \<Rightarrow> nat \<Rightarrow> Param list \<times> ffi_type list
     \<Rightarrow> Param list \<times> ffi_type list" where
  "process_arg sz n c_nargs gi argi = (\<lambda>(ps, ffi_args).
     let a = callable_args gi ! argi;
         ps = ps[argi := (ps ! argi)\<lparr>ai := a, ti := arg_type a, dir := arg_direction a,
                                    transfer := arg_ownership_transfer a\<rparr>];
         ffi_args = ffi_args @ [param_ffi_arg sz (ps ! argi)];
         arg = arg_closure a;
         ps = (if arg > 0 \<and> arg < int n then mark_internal (nat arg) ps else ps);
         arg = arg_destroy a;
         ps = (if arg > 0 \<and> arg < int n then mark_internal (nat arg) ps else ps)
     in (callable_mark_array_length c_nargs ps (ti (ps ! argi)), ffi_args))"

text \<open>The parameter array and the slot types after the return value and all arguments are
  processed: the flags are cleared, the return type may mark its array length, a receiver
  takes the first slot, and the loop runs over the declared arguments in order.\<close>

definition callable_layout ::
  "nat \<Rightarrow> GICallableInfo \<Rightarrow> bool \<Rightarrow> Param list \<times> ffi_type list" where
  "callable_layout sz gi self =
     (let n = length (callable_args gi);
          c_nargs = n mod 64;
          ps = replicate n unset_param;
          ps = callable_mark_array_length c_nargs ps (return_type gi);
          ffi_args = (if self then [ffi_type_pointer] else [])
      in fold (process_arg sz n c_nargs gi) [0..<n] (ps, ffi_args))"

text \<open>The two errors \<^verbatim>\<open>lgi_callable_create\<close> raises with \<^verbatim>\<open>luaL_error\<close>:
  \<^verbatim>\<open>"could not locate %s(%s): %s"\<close> and \<^verbatim>\<open>"ffi_prep_cif for `%s' failed"\<close>.\<close>

definition locate_error :: "string \<Rightarrow> string \<Rightarrow> string \<Rightarrow> lua_error" where
  "locate_error name symbol reason =
     LuaError (''could not locate '' @ name @ ''('' @ symbol @ ''): '' @ reason)"

definition prep_cif_error :: "string \<Rightarrow> lua_error" where
  "prep_cif_error name = LuaError (''ffi_prep_cif for `'' @ name @ [CHR 0x27] @ '' failed'')"

text \<open>\<^verbatim>\<open>lgi_callable_create\<close>. The result is the userdata left on top of the stack, or the
  error raised; the state is returned in both cases. At the first \<^verbatim>\<open>luaL_error\<close> the stack
  holds the cache table, the key, the nil of the failed lookup and the new userdata, so
  \<^verbatim>\<open>lua_tostring (L, -3)\<close> is the key.\<close>

definition lgi_callable_create ::
  "gi_env \<Rightarrow> lua_State \<Rightarrow> GICallableInfo \<Rightarrow> nat option \<Rightarrow> (lua_error + nat) \<times> lua_State" where
  "lgi_callable_create env L gi addr =
     (let key = cache_key env gi in
      case callable_cache L key of
        Some cached \<Rightarrow> (Inr cached, L)
      | None \<Rightarrow>
         (let n = length (callable_args gi);
              ud = n_userdata L;
              L = L\<lparr>n_userdata := Suc ud\<rparr>;
              is_function = (info_type gi = INFO_FUNCTION);
              flags = function_flags gi;
              self = (if is_function then IS_METHOD \<in> flags \<and> IS_CONSTRUCTOR \<notin> flags
                      else info_type gi = INFO_SIGNAL);
              thr = (is_function \<and> THROWS \<in> flags);
              symbol = function_symbol gi
          in if is_function \<and> typelib_symbol env symbol = None then
               (Inl (locate_error key symbol (module_error env)), L)
             else
               (let address = (if is_function then typelib_symbol env symbol else addr);
                    rv = unset_param\<lparr>ti := return_type gi, dir := DIRECTION_OUT,
                                     transfer := caller_owns gi, internal := False\<rparr>;
                    ffi_retval = get_ffi_type (sizeof_size_t env) rv;
                    (ps, ffi_args) = callable_layout (sizeof_size_t env) gi self;
                    ffi_args = ffi_args @ (if thr then [ffi_type_pointer] else []);
                    cif_n = of_bool self + n + of_bool thr
                in if \<not> ffi_prep_cif env cif_n ffi_retval ffi_args then
                     (Inl (prep_cif_error (concat (type_name gi))), L)
                   else
                     (let callable = \<lparr>info = gi, address = address, has_self = self,
                            throws = thr, nargs = n mod 64,
                            cif = \<lparr>cif_nargs = cif_n, cif_rtype = ffi_retval,
                                   cif_arg_types = ffi_args\<rparr>,
                            retval = rv, params = ps\<rparr>
                      in (Inr ud, L\<lparr>userdata := (userdata L)(ud \<mapsto> callable),
                                    callable_cache := (callable_cache L)(key \<mapsto> ud)\<rparr>)))))"

section \<open>Lua values, the stack, and the trace of a call\<close>

text \<open>A stack is the list of its values, index 1 first and the top last.\<close>

definition lua_at :: "lval list \<Rightarrow> nat \<Rightarrow> lval option" where
  "lua_at L n = (if 1 \<le> n \<and> n \<le> length L then Some (L ! (n - 1)) else None)"


definition lua_settop :: "nat \<Rightarrow> lval list \<Rightarrow> lval list" where
  "lua_settop n L = take n L @ replicate (n - length L) LNil"

definition lua_pop :: "nat \<Rightarrow> lval list \<Rightarrow> lval list" where
  "lua_pop n L = take (length L - n) L"

text \<open>\<^verbatim>\<open>lua_insert\<close> moves the top value to the given index and shifts the values above
  it up. The bridge only passes negative indices computed from its counters; for an index
  outside the stack the model leaves the stack as it is (every run of \<^verbatim>\<open>callable_call\<close>
  that gets there ends in its final assertion).\<close>

definition lua_insert :: "int \<Rightarrow> lval list \<Rightarrow> lval list" where
  "lua_insert idx L =
     (let n = int (length L);
          a = (if idx > 0 then idx else n + idx + 1)
      in if 1 \<le> a \<and> a \<le> n
         then take (nat a - 1) (butlast L) @ last L # drop (nat a - 1) (butlast L)
         else L)"

text \<open>The values a C function hands back when it returns \<open>n\<close>: the top \<open>n\<close> of its stack.\<close>

definition lua_return :: "nat \<Rightarrow> lval list \<Rightarrow> lval list" where
  "lua_return n L = drop (length L - n) L"

text \<open>The operations of one invocation that reach outside the function, in the order they
  happen. A marshalling event names the parameter (\<open>None\<close> is the return value).\<close>

datatype event =
    Ev_mutex_lock
  | Ev_mutex_unlock
  | Ev_ffi_call
  | Ev_self_2c
  | Ev_self_2lua
  | Ev_marshal_arg_2c "nat option" nat
  | Ev_marshal_arg_2lua "nat option"
  | Ev_caller_alloc nat
  | Ev_push lval
  | Ev_call
  | Ev_pcall
  | Ev_resume
  | Ev_warning "nat option" nat
  | Ev_set_error "string option"
  | Ev_guard_create

type_synonym GIArgument = int

record GError =
  message :: string
  code :: int

text \<open>What the native callee does: the value it returns, the values it writes through the
  pointers of the argument frame (by slot), and the error it stores in the error slot.\<close>

record native_result =
  nr_retval :: GIArgument
  nr_written :: "nat \<rightharpoonup> GIArgument"
  nr_error :: "GError option"

text \<open>The marshalling collaborators and the native callee. \<open>marshal_arg_2c\<close> reads the
  stack at an index and gives the native value and the temporaries it pushes (their number
  is what the C function returns); \<open>caller_alloc\<close> is \<^verbatim>\<open>lgi_marshal_arg_2c_caller_alloc\<close>,
  which answers \<^verbatim>\<open>TRUE\<close> for the types it can pre-create and then pushes the new value.
  Writes of a marshaller to slots other than its own (array lengths) are not modelled.\<close>

record marshal_env =
  object_2c :: "lval option \<Rightarrow> GIArgument"
  record_2c :: "lval option \<Rightarrow> GIArgument"
  object_2lua :: "GIArgument \<Rightarrow> lval"
  record_2lua :: "GIArgument \<Rightarrow> lval"
  marshal_arg_2c :: "GITypeInfo \<Rightarrow> GITransfer \<Rightarrow> lval list \<Rightarrow> nat \<Rightarrow> GIArgument \<times> lval list"
  marshal_arg_2lua :: "GITypeInfo \<Rightarrow> GITransfer \<Rightarrow> GIArgument \<Rightarrow> lval"
  caller_alloc :: "GITypeInfo \<Rightarrow> (GIArgument \<times> lval) option"
  ffi_call :: "ffi_cif \<Rightarrow> nat option \<Rightarrow> GIArgument list \<Rightarrow> native_result"

section \<open>Forward invocation\<close>

text \<open>The locals of \<^verbatim>\<open>callable_call\<close> together with the stack and the trace.\<close>

record call_state =
  stack :: "lval list"
  args :: "GIArgument list"
  nret :: nat
  caller_allocated :: int
  lua_argi :: nat
  trace :: "event list"

text \<open>The body of the loop ``Process input parameters'', for index \<open>i\<close>.\<close>

definition marshal_in :: "marshal_env \<Rightarrow> Callable \<Rightarrow> nat \<Rightarrow> call_state \<Rightarrow> call_state" where
  "marshal_in m c i st =
     (let param = params c ! i in
      if internal param then st
      else
        let argi = i + of_bool (has_self c) in
        if dir param \<noteq> DIRECTION_OUT then
          (let (v, temps) = marshal_arg_2c m (ti param) TRANSFER_NOTHING (stack st) (lua_argi st)
           in st\<lparr>stack := stack st @ temps, args := (args st)[argi := v],
                 nret := nret st + length temps, lua_argi := lua_argi st + 1,
                 trace := trace st @ [Ev_marshal_arg_2c (Some i) (lua_argi st)]\<rparr>)
        else if arg_caller_allocates (ai param) then
          (case caller_alloc m (ti param) of
             Some (v, lv) \<Rightarrow>
               st\<lparr>stack := lua_insert (- int (nret st) - 1) (stack st @ [lv]),
                  args := (args st)[argi := v],
                  caller_allocated := caller_allocated st + 1,
                  trace := trace st @ [Ev_caller_alloc i]\<rparr>
           | None \<Rightarrow> st\<lparr>trace := trace st @ [Ev_caller_alloc i]\<rparr>)
        else st)"

text \<open>The start of \<^verbatim>\<open>callable_call\<close>: the stack is normalised, the argument storage
  is allocated, and the receiver, if the plan has one, is marshalled from stack index 2.\<close>

definition call_self :: "marshal_env \<Rightarrow> Callable \<Rightarrow> lval list \<Rightarrow> call_state" where
  "call_self m c L =
     (let L = lua_settop (of_bool (has_self c) + nargs c + 1) L;
          n = nargs c + of_bool (has_self c);
          st = \<lparr>stack = L, args = replicate n 0, nret = 0, caller_allocated = 0,
                lua_argi = 2, trace = []\<rparr>
      in if has_self c then
           (let parent = container_type (info c);
                v = (if parent = INFO_OBJECT \<or> parent = INFO_INTERFACE
                     then object_2c m (lua_at L 2) else record_2c m (lua_at L 2))
            in st\<lparr>args := (args st)[0 := v], lua_argi := 3, trace := [Ev_self_2c]\<rparr>)
         else st)"

text \<open>Everything \<^verbatim>\<open>callable_call\<close> does before it fetches the mutex: the start above,
  then the input parameters are marshalled.\<close>

definition call_inputs :: "marshal_env \<Rightarrow> Callable \<Rightarrow> lval list \<Rightarrow> call_state" where
  "call_inputs m c L = fold (marshal_in m c) [0..<nargs c] (call_self m c L)"

text \<open>The body of the loop ``Process output parameters'', for index \<open>i\<close>. The second
  call of \<^verbatim>\<open>lgi_marshal_arg_2c_caller_alloc\<close> is made for every visible output that is
  flagged caller-allocates, whatever it answers.\<close>

definition marshal_out :: "marshal_env \<Rightarrow> Callable \<Rightarrow> nat \<Rightarrow> call_state \<Rightarrow> call_state" where
  "marshal_out m c i st =
     (let param = params c ! i in
      if \<not> internal param \<and> dir param \<noteq> DIRECTION_IN then
        (if arg_caller_allocates (ai param) \<and> caller_alloc m (ti param) \<noteq> None then
           st\<lparr>caller_allocated := caller_allocated st - 1, nret := nret st + 1,
              trace := trace st @ [Ev_caller_alloc i]\<rparr>
         else
           (let lv = marshal_arg_2lua m (ti param) (transfer param)
                       (args st ! (i + of_bool (has_self c)))
            in st\<lparr>stack := lua_insert (- caller_allocated st - 1) (stack st @ [lv]),
                  nret := nret st + 1,
                  trace := trace st
                    @ (if arg_caller_allocates (ai param) then [Ev_caller_alloc i] else [])
                    @ [Ev_marshal_arg_2lua (Some i)]\<rparr>))
      else st)"

text \<open>The native call between the release and the re-acquisition of the mutex, the removal
  of the temporaries, and the marshalling of the return value. The error is the one the
  callee stored; without \<^verbatim>\<open>throws\<close> no error slot is passed and \<^verbatim>\<open>err\<close> stays
  \<^verbatim>\<open>NULL\<close>.\<close>

definition call_native :: "marshal_env \<Rightarrow> Callable \<Rightarrow> call_state \<Rightarrow> call_state \<times> GError option" where
  "call_native m c st =
     (let tr = trace st @ [Ev_mutex_unlock];
          r = ffi_call m (cif c) (address c) (args st);
          tr = tr @ [Ev_ffi_call];
          tr = tr @ [Ev_mutex_lock];
          err = (if throws c then nr_error r else None);
          as = map (\<lambda>k. case nr_written r k of Some v \<Rightarrow> v | None \<Rightarrow> args st ! k)
                   [0..<length (args st)];
          L = lua_pop (nret st) (stack st);
          st = st\<lparr>stack := L, args := as, nret := 0, trace := tr\<rparr>
      in if tag (ti (retval c)) \<noteq> VOID then
           (let lv = marshal_arg_2lua m (ti (retval c)) (transfer (retval c)) (nr_retval r)
            in (st\<lparr>stack := lua_insert (- caller_allocated st - 1) (stack st @ [lv]),
                   nret := 1, trace := trace st @ [Ev_marshal_arg_2lua None]\<rparr>, err))
         else (st, err))"

text \<open>\<^verbatim>\<open>callable_call\<close>: the values returned to the caller (or the failed assertion), and
  the trace.\<close>

definition callable_call ::
  "marshal_env \<Rightarrow> Callable \<Rightarrow> lval list \<Rightarrow> (lua_error + lval list) \<times> event list" where
  "callable_call m c L =
     (let (st, err) = call_native m c (call_inputs m c L) in
      case err of
        Some e \<Rightarrow>
          (let st = (if nret st = 0
                     then st\<lparr>stack := stack st @ [LBool False], nret := 1,
                             trace := trace st @ [Ev_push (LBool False)]\<rparr>
                     else st);
               st = st\<lparr>stack := stack st @ [LString (message e), LNumber (code e)],
                       trace := trace st @ [Ev_push (LString (message e)),
                                            Ev_push (LNumber (code e))]\<rparr>
           in (Inr (lua_return (nret st + 2) (stack st)), trace st))
      | None \<Rightarrow>
          (let st = fold (marshal_out m c) [0..<nargs c] st;
               st = (if nret st = 0 \<and> throws c
                     then st\<lparr>stack := stack st @ [LBool True], nret := 1,
                             trace := trace st @ [Ev_push (LBool True)]\<rparr>
                     else st)
           in if caller_allocated st \<noteq> 0 then (Inl AssertionFailed, trace st)
              else (Inr (lua_return (nret st) (stack st)), trace st)))"

section \<open>Callback targets\<close>

datatype lua_status = LUA_OK | LUA_YIELD | LUA_ERRRUN | LUA_ERRSYNTAX | LUA_ERRMEM | LUA_ERRERR

text \<open>A thread of the interpreter: its identity, its status and its stack.\<close>

record lua_thread =
  th_id :: nat
  th_status :: lua_status
  th_stack :: "lval list"

text \<open>\<^verbatim>\<open>struct _Callback\<close>: \<open>cb_L\<close> is the thread that \<^verbatim>\<open>callback->L\<close> and
  \<^verbatim>\<open>thread_ref\<close> name, \<open>target_ref\<close> the referenced target, \<open>None\<close> for
  \<^verbatim>\<open>LUA_NOREF\<close>. The mutex is the one process-wide call mutex.\<close>

record Callback =
  cb_L :: nat
  target_ref :: "lval option"

record FfiClosure =
  fc_callable :: Callable
  fc_callback :: Callback
  autodestroy :: bool

record GlibClosure =
  gc_callback :: Callback

text \<open>The dynamic side: the identity of the thread \<^verbatim>\<open>lua_newthread\<close> creates, and what
  happens when the target (\<open>None\<close>: the thread itself, resumed) runs on the given
  arguments: the status, and the values it leaves (results, yielded values, or the error
  value for an error status).\<close>

record target_env =
  newthread :: nat
  run_target :: "lval option \<Rightarrow> lval list \<Rightarrow> lua_status \<times> lval list"

definition lua_tostring :: "lval option \<Rightarrow> string option" where
  "lua_tostring v = (case v of
       Some (LString s) \<Rightarrow> Some s
     | Some (LNumber n) \<Rightarrow>
         Some (if n < 0 then ''-'' @ string_of_nat (nat (- n)) else string_of_nat (nat n))
     | _ \<Rightarrow> None)"

text \<open>The value on top of the stack, raised by \<^verbatim>\<open>lua_error\<close> (an error status always
  leaves the error value there).\<close>

definition lua_top :: "lval list \<Rightarrow> lval" where
  "lua_top L = (case lua_at L (length L) of Some v \<Rightarrow> v | None \<Rightarrow> LNil)"


text \<open>\<^verbatim>\<open>callback_prepare_call\<close>, given the thread the callback names: the thread to run
  on with its stack, \<^verbatim>\<open>*call\<close>, the updated callback, and the trace.\<close>

definition callback_prepare_call ::
  "target_env \<Rightarrow> Callback \<Rightarrow> lua_thread \<Rightarrow> lua_thread \<times> bool \<times> Callback \<times> event list" where
  "callback_prepare_call te cb L0 =
     (let tr = [Ev_mutex_lock];
          L = L0\<lparr>th_stack := th_stack L0 @ [LThread (cb_L cb)]\<rparr>
      in case target_ref cb of
           Some target \<Rightarrow>
             (let L = (if th_status L \<noteq> LUA_OK
                       then \<lparr>th_id = newthread te, th_status = LUA_OK, th_stack = []\<rparr>
                       else L\<lparr>th_stack := lua_pop 1 (th_stack L)\<rparr>)
              in (L\<lparr>th_stack := th_stack L @ [target]\<rparr>, True, cb\<lparr>cb_L := th_id L\<rparr>, tr))
         | None \<Rightarrow> (L, False, cb, tr))"

section \<open>Trampoline invocation\<close>

text \<open>The stack of the thread, \<^verbatim>\<open>npos\<close>, the native return slot and argument frame, and
  the trace.\<close>

record cb_state =
  cb_stack :: "lval list"
  cb_npos :: nat
  cb_ret :: "GIArgument option"
  cb_args :: "GIArgument list"
  cb_trace :: "event list"

text \<open>``Marshall 'self' argument, if it is present.''\<close>

definition callback_self :: "marshal_env \<Rightarrow> Callable \<Rightarrow> cb_state \<Rightarrow> lua_error + cb_state" where
  "callback_self m c st =
     (if has_self c then
        (let parent = container_type (info c);
             addr = cb_args st ! 0;
             st = st\<lparr>cb_npos := cb_npos st + 1\<rparr>
         in if parent = INFO_OBJECT \<or> parent = INFO_INTERFACE then
              Inr (st\<lparr>cb_stack := cb_stack st @ [object_2lua m addr],
                      cb_trace := cb_trace st @ [Ev_self_2lua]\<rparr>)
            else if parent = INFO_STRUCT \<or> parent = INFO_UNION then
              Inr (st\<lparr>cb_stack := cb_stack st @ [record_2lua m addr],
                      cb_trace := cb_trace st @ [Ev_self_2lua]\<rparr>)
            else Inl AssertionFailed)
      else Inr st)"

text \<open>The body of the loop ``Marshal input arguments to lua'', for index \<open>i\<close>.\<close>

definition callback_in :: "marshal_env \<Rightarrow> Callable \<Rightarrow> nat \<Rightarrow> cb_state \<Rightarrow> cb_state" where
  "callback_in m c i st =
     (let param = params c ! i in
      if \<not> internal param \<and> dir param \<noteq> DIRECTION_OUT then
        st\<lparr>cb_stack := cb_stack st @
               [marshal_arg_2lua m (ti param) TRANSFER_NOTHING
                  (cb_args st ! (i + of_bool (has_self c)))],
           cb_npos := cb_npos st + 1,
           cb_trace := cb_trace st @ [Ev_marshal_arg_2lua (Some i)]\<rparr>
      else st)"

text \<open>``Call it.'' The top \<^verbatim>\<open>npos\<close> values are the arguments; the target and the
  arguments are replaced by what the target leaves. The result is \<^verbatim>\<open>res\<close>, or the error
  that leaves the function.\<close>

definition callback_invoke ::
  "target_env \<Rightarrow> Callable \<Rightarrow> Callback \<Rightarrow> bool \<Rightarrow> nat \<Rightarrow> cb_state
     \<Rightarrow> (lua_error + lua_status) \<times> cb_state" where
  "callback_invoke te c cb call stacktop st =
     (let argv = lua_return (cb_npos st) (cb_stack st);
          (status, vals) = run_target te (target_ref cb) argv;
          L = take stacktop (cb_stack st) @ vals
      in if call then
           (if throws c then
              (Inr status, st\<lparr>cb_stack := L, cb_trace := cb_trace st @ [Ev_pcall]\<rparr>)
            else
              (let st = st\<lparr>cb_stack := L, cb_trace := cb_trace st @ [Ev_call]\<rparr>
               in if status = LUA_OK then (Inr LUA_OK, st) else (Inl (Thrown (lua_top L)), st)))
         else
           (let st = st\<lparr>cb_stack := L, cb_trace := cb_trace st @ [Ev_resume]\<rparr>;
                res = status
            in if res = LUA_YIELD then (Inr LUA_OK, st)
               else if res = LUA_ERRRUN \<and> \<not> throws c then (Inl (Thrown (lua_top L)), st)
               else (Inr res, st)))"

text \<open>``Marshal return value from Lua.''\<close>

definition callback_ret :: "marshal_env \<Rightarrow> Callable \<Rightarrow> cb_state \<Rightarrow> cb_state" where
  "callback_ret m c st =
     (if tag (ti (retval c)) \<noteq> VOID then
        (let (v, temps) = marshal_arg_2c m (ti (retval c)) (transfer (retval c))
                            (cb_stack st) (cb_npos st);
             to_pop = length temps;
             st = st\<lparr>cb_stack := cb_stack st @ temps, cb_ret := Some v,
                     cb_trace := cb_trace st @ [Ev_marshal_arg_2c None (cb_npos st)]\<rparr>;
             st = (if to_pop \<noteq> 0
                   then st\<lparr>cb_stack := lua_pop to_pop (cb_stack st),
                           cb_trace := cb_trace st @ [Ev_warning None to_pop]\<rparr>
                   else st)
         in st\<lparr>cb_npos := cb_npos st + 1\<rparr>)
      else st)"

text \<open>The body of the loop ``Marshal output arguments from Lua'', for index \<open>i\<close>.\<close>

definition callback_out :: "marshal_env \<Rightarrow> Callable \<Rightarrow> nat \<Rightarrow> cb_state \<Rightarrow> cb_state" where
  "callback_out m c i st =
     (let param = params c ! i in
      if \<not> internal param \<and> dir param \<noteq> DIRECTION_IN then
        (let (v, temps) = marshal_arg_2c m (ti param) (transfer param)
                            (cb_stack st) (cb_npos st);
             to_pop = length temps;
             st = st\<lparr>cb_stack := cb_stack st @ temps,
                     cb_args := (cb_args st)[i + of_bool (has_self c) := v],
                     cb_trace := cb_trace st @ [Ev_marshal_arg_2c (Some i) (cb_npos st)]\<rparr>;
             st = (if to_pop \<noteq> 0
                   then st\<lparr>cb_stack := lua_pop to_pop (cb_stack st),
                           cb_trace := cb_trace st @ [Ev_warning (Some i) to_pop]\<rparr>
                   else st)
         in st\<lparr>cb_npos := cb_npos st + 1\<rparr>)
      else st)"

text \<open>The two branches after the invocation: the results are marshalled out, or the error
  on top of the stack is stored through the slot after the declared arguments. The frame
  holds the slots the cif describes; a read after its last slot is \<open>InvalidRead\<close>.\<close>

definition callback_results ::
  "marshal_env \<Rightarrow> Callable \<Rightarrow> lua_status \<Rightarrow> cb_state \<Rightarrow> lua_error + cb_state" where
  "callback_results m c res st =
     (if res = LUA_OK then
        Inr (fold (callback_out m c) [0..<nargs c] (callback_ret m c st))
      else
        (let k = of_bool (has_self c) + nargs c in
         if k < length (cb_args st) then
           Inr (st\<lparr>cb_stack := lua_pop 1 (cb_stack st),
                   cb_trace := cb_trace st @
                     [Ev_set_error (lua_tostring (lua_at (cb_stack st) (length (cb_stack st))))]\<rparr>)
         else Inl (InvalidRead k)))"

text \<open>\<^verbatim>\<open>closure_callback\<close>, called by native code with the argument frame \<open>native_args\<close> while
  the callback's thread is \<open>th\<close>. The result tells whether control returns to the native
  caller; the state is the one reached, at the return or where the error left the function.\<close>

definition closure_callback ::
  "marshal_env \<Rightarrow> target_env \<Rightarrow> FfiClosure \<Rightarrow> lua_thread \<Rightarrow> GIArgument list
     \<Rightarrow> (lua_error + unit) \<times> cb_state" where
  "closure_callback m te closure th native_args =
     (let (L, call, cb, tr) = callback_prepare_call te (fc_callback closure) th;
          c = fc_callable closure;
          stacktop = length (th_stack L) - (if call then 1 else 0);
          st = \<lparr>cb_stack = th_stack L, cb_npos = 0, cb_ret = None, cb_args = native_args,
                cb_trace = tr\<rparr>
      in case callback_self m c st of
           Inl e \<Rightarrow> (Inl e, st)
         | Inr st \<Rightarrow>
            (let st = fold (callback_in m c) [0..<nargs c] st in
             case callback_invoke te c cb call stacktop st of
               (Inl e, st) \<Rightarrow> (Inl e, st)
             | (Inr res, st) \<Rightarrow>
                (let st = st\<lparr>cb_npos := stacktop + 1\<rparr> in
                 case callback_results m c res st of
                   Inl e \<Rightarrow> (Inl e, st)
                 | Inr st \<Rightarrow>
                    (let st = (if autodestroy closure
                               then st\<lparr>cb_trace := cb_trace st @ [Ev_guard_create]\<rparr> else st);
                         st = st\<lparr>cb_stack := lua_settop stacktop (cb_stack st)\<rparr>;
                         st = st\<lparr>cb_trace := cb_trace st @ [Ev_mutex_unlock]\<rparr>
                     in (Inr (), st)))))"

section \<open>Event closures\<close>

text \<open>\<^verbatim>\<open>lgi_gclosure_marshal\<close>: the parameter values are pushed, the target is called for
  one result or the thread resumed, and the value on top is marshalled into the return
  value. \<open>val_2lua\<close> and \<open>val_2c\<close> stand for \<^verbatim>\<open>lgi_marshal_val_2lua\<close> and
  \<^verbatim>\<open>lgi_marshal_val_2c\<close>.\<close>

definition lgi_gclosure_marshal ::
  "(GIArgument \<Rightarrow> lval) \<Rightarrow> (lval option \<Rightarrow> GIArgument) \<Rightarrow> target_env \<Rightarrow> GlibClosure
     \<Rightarrow> lua_thread \<Rightarrow> GIArgument list \<Rightarrow> (lua_error + GIArgument) \<times> event list" where
  "lgi_gclosure_marshal val_2lua val_2c te c th param_values =
     (let (L, call, cb, tr) = callback_prepare_call te (gc_callback c) th;
          argv = map val_2lua param_values;
          (status, vals) = run_target te (target_ref cb) argv;
          base = take (length (th_stack L) - (if call then 1 else 0)) (th_stack L)
      in if call then
           (if status = LUA_OK then
              (let S = base @ lua_settop 1 vals
               in (Inr (val_2c (lua_at S (length S))), tr @ [Ev_call, Ev_mutex_unlock]))
            else (Inl (Thrown (lua_top (base @ vals))), tr @ [Ev_call]))
         else
           (let res = status; S = base @ vals
            in if res \<noteq> LUA_OK \<and> res \<noteq> LUA_YIELD
               then (Inl (Thrown (lua_top S)), tr @ [Ev_resume])
               else (Inr (val_2c (lua_at S (length S))), tr @ [Ev_resume, Ev_mutex_unlock])))"



section \<open>Notions used to state the properties\<close>

text \<open>The descriptor \<^verbatim>\<open>lgi_callable_create\<close> loads for a declared argument, apart from its
  \<open>internal\<close> flag.\<close>

definition loaded_param :: "GIArgInfo \<Rightarrow> Param" where
  "loaded_param a = unset_param\<lparr>ai := a, ti := arg_type a, dir := arg_direction a,
     transfer := arg_ownership_transfer a\<rparr>"

text \<open>The marks the code sets. A type marks index \<open>k\<close> when it is a C array whose length
  index is \<open>k\<close>, below the bound \<open>cn\<close> the code tests (the six-bit \<^verbatim>\<open>callable->nargs\<close>).
  An argument marks \<open>k\<close> as a companion when its closure or destroy index is \<open>k\<close> and
  \<open>0 < k < n\<close>.\<close>

definition length_mark :: "nat \<Rightarrow> GITypeInfo \<Rightarrow> nat \<Rightarrow> bool" where
  "length_mark cn t k =
     (tag t = ARRAY \<and> array_type t = ARRAY_TYPE_C \<and> array_length t = int k \<and> k < cn)"

definition companion_mark :: "nat \<Rightarrow> GIArgInfo \<Rightarrow> nat \<Rightarrow> bool" where
  "companion_mark n a k =
     (0 < k \<and> k < n \<and> (arg_closure a = int k \<or> arg_destroy a = int k))"

text \<open>A parameter whose value is handed back: not internal, and not of direction ``in''.\<close>

definition visible_out :: "Callable \<Rightarrow> nat \<Rightarrow> bool" where
  "visible_out c i = (\<not> internal (params c ! i) \<and> dir (params c ! i) \<noteq> DIRECTION_IN)"

text \<open>The outputs of a plan in the order they are handed back: the return value, named
  \<open>None\<close>, when the return type is not void, then the visible output parameters.\<close>

definition out_slots :: "Callable \<Rightarrow> nat option list" where
  "out_slots c =
     (if tag (ti (retval c)) \<noteq> VOID then [None] else [])
     @ map Some (filter (visible_out c) [0..<nargs c])"

definition visible_outputs :: "Callable \<Rightarrow> nat" where
  "visible_outputs c = length (out_slots c)"

definition slot_param :: "Callable \<Rightarrow> nat option \<Rightarrow> Param" where
  "slot_param c w = (case w of None \<Rightarrow> retval c | Some i \<Rightarrow> params c ! i)"

text \<open>The error the native callee leaves for \<^verbatim>\<open>callable_call\<close> to see.\<close>

definition native_error :: "marshal_env \<Rightarrow> Callable \<Rightarrow> lval list \<Rightarrow> GError option" where
  "native_error m c L = snd (call_native m c (call_inputs m c L))"

text \<open>A stretch of a trace in which the mutex is not touched and no native call is made.\<close>

definition guard_free :: "event list \<Rightarrow> bool" where
  "guard_free evs =
     (Ev_mutex_lock \<notin> set evs \<and> Ev_mutex_unlock \<notin> set evs \<and> Ev_ffi_call \<notin> set evs)"

text \<open>A stretch of a trace that, besides, pushes no value of the function's own making: it
  holds marshalling events only.\<close>

definition quiet :: "event list \<Rightarrow> bool" where
  "quiet evs = (guard_free evs \<and> (\<forall>v. Ev_push v \<notin> set evs))"

text \<open>What marshalling one output of a trampoline leaves in the trace when the stack is
  \<open>L\<close> and the value is expected at \<open>npos\<close>: the marshalling itself and, when the
  marshaller reports temporaries, the warning with their number.\<close>

definition out_events ::
  "marshal_env \<Rightarrow> Callable \<Rightarrow> lval list \<Rightarrow> nat \<Rightarrow> nat option \<Rightarrow> event list" where
  "out_events m c L npos w =
     (let p = slot_param c w;
          to_pop = length (snd (marshal_arg_2c m (ti p) (transfer p) L npos))
      in Ev_marshal_arg_2c w npos # (if to_pop \<noteq> 0 then [Ev_warning w to_pop] else []))"

text \<open>The same for a list of outputs taken in order from consecutive positions, the stack
  being \<open>L\<close> again before each.\<close>

fun out_trace ::
  "marshal_env \<Rightarrow> Callable \<Rightarrow> lval list \<Rightarrow> nat \<Rightarrow> nat option list \<Rightarrow> event list" where
  "out_trace m c L npos [] = []"
| "out_trace m c L npos (w # ws) = out_events m c L npos w @ out_trace m c L (Suc npos) ws"


section \<open>Sample descriptions and collaborators\<close>

text \<open>Small concrete inputs, used to run the definitions above.\<close>

definition ex_typeinfo :: "GITypeTag \<Rightarrow> GITypeInfo" where
  "ex_typeinfo t = \<lparr>tag = t, is_pointer = False, array_type = ARRAY_TYPE_C,
     array_length = - 1, interface = \<lparr>base_type = INFO_STRUCT, storage_type = VOID\<rparr>\<rparr>"

definition ex_arg :: "string \<Rightarrow> GITypeTag \<Rightarrow> GIDirection \<Rightarrow> GIArgInfo" where
  "ex_arg name t d = \<lparr>arg_name = name, arg_type = ex_typeinfo t, arg_direction = d,
     arg_ownership_transfer = TRANSFER_NOTHING, arg_closure = - 1, arg_destroy = - 1,
     arg_caller_allocates = False\<rparr>"

definition ex_param :: "GIArgInfo \<Rightarrow> Param" where
  "ex_param a = \<lparr>ti = arg_type a, ai = a, dir = arg_direction a,
     transfer = arg_ownership_transfer a, internal = False\<rparr>"

definition ex_info :: "GIArgInfo list \<Rightarrow> GITypeTag \<Rightarrow> GIFunctionInfoFlags set \<Rightarrow> GICallableInfo" where
  "ex_info as rt fl = \<lparr>info_type = INFO_FUNCTION, info_namespace = ''Ns'', info_name = ''fn'',
     type_name = [''Ns'', ''.'', ''fn''], callable_args = as, return_type = ex_typeinfo rt,
     caller_owns = TRANSFER_NOTHING, function_flags = fl, function_symbol = ''ns_fn'',
     container_type = INFO_OBJECT\<rparr>"

text \<open>A plan for a plain function (no receiver) with the given description, every
  parameter visible.\<close>

definition ex_callable :: "GICallableInfo \<Rightarrow> Callable" where
  "ex_callable gi = \<lparr>info = gi, address = Some 0, has_self = False,
     throws = (THROWS \<in> function_flags gi), nargs = length (callable_args gi),
     cif = \<lparr>cif_nargs = length (callable_args gi) + of_bool (THROWS \<in> function_flags gi),
            cif_rtype = ffi_type_pointer, cif_arg_types = []\<rparr>,
     retval = \<lparr>ti = return_type gi, ai = ai unset_param, dir = DIRECTION_OUT,
               transfer = caller_owns gi, internal = False\<rparr>,
     params = map ex_param (callable_args gi)\<rparr>"

text \<open>Collaborators: symbols resolve unless named \<open>missing\<close>, the cif is accepted up to
  the given number of slots.\<close>

definition ex_gi_env :: "nat \<Rightarrow> gi_env" where
  "ex_gi_env max_slots = \<lparr>sizeof_size_t = 8,
     info_type_code = (\<lambda>k. case k of INFO_FUNCTION \<Rightarrow> 1 | INFO_CALLBACK \<Rightarrow> 2
                          | INFO_SIGNAL \<Rightarrow> 13 | INFO_VFUNC \<Rightarrow> 14 | _ \<Rightarrow> 0),
     typelib_symbol = (\<lambda>s. if s = ''missing'' then None else Some 4096),
     module_error = ''symbol not found'',
     ffi_prep_cif = (\<lambda>n r as. n \<le> max_slots)\<rparr>"

definition ex_state :: lua_State where
  "ex_state = \<lparr>callable_cache = Map.empty, n_userdata = 0, userdata = Map.empty\<rparr>"

text \<open>Marshallers that push \<open>k\<close> temporaries for each value converted to C; the callee
  returns 0, writes nothing and stores the given error.\<close>

definition ex_marshal :: "nat \<Rightarrow> GError option \<Rightarrow> marshal_env" where
  "ex_marshal k e = \<lparr>object_2c = (\<lambda>v. 1), record_2c = (\<lambda>v. 2),
     object_2lua = (\<lambda>a. LUserdata 1), record_2lua = (\<lambda>a. LUserdata 2),
     marshal_arg_2c = (\<lambda>t tr L n. (5, replicate k LNil)),
     marshal_arg_2lua = (\<lambda>t tr a. LNumber a),
     caller_alloc = (\<lambda>t. if tag t = INTERFACE then Some (9, LUserdata 3) else None),
     ffi_call = (\<lambda>cf ad as. \<lparr>nr_retval = 0, nr_written = Map.empty, nr_error = e\<rparr>)\<rparr>"

definition ex_target :: "lua_status \<Rightarrow> lval list \<Rightarrow> target_env" where
  "ex_target s vs = \<lparr>newthread = 2, run_target = (\<lambda>t as. (s, vs))\<rparr>"

text \<open>A function with a user-data parameter at index 0 and a callback at index 1 that
  names index 0 as its closure companion.\<close>

definition closure0_info :: GICallableInfo where
  "closure0_info = ex_info [ex_arg ''user_data'' (TAG_OTHER 0) DIRECTION_IN,
                            (ex_arg ''callback'' INTERFACE DIRECTION_IN)\<lparr>arg_closure := 0\<rparr>] VOID {}"

text \<open>The same two parameters in the other order, the callback naming index 1.\<close>

definition closure1_info :: GICallableInfo where
  "closure1_info = ex_info [(ex_arg ''callback'' INTERFACE DIRECTION_IN)\<lparr>arg_closure := 1\<rparr>,
                            ex_arg ''user_data'' (TAG_OTHER 0) DIRECTION_IN] VOID {}"

text \<open>A length at index 0 and a C array at index 1 that names index 0 as its length.\<close>

definition length0_info :: GICallableInfo where
  "length0_info = ex_info [ex_arg ''n'' INT32 DIRECTION_IN,
     (ex_arg ''data'' ARRAY DIRECTION_IN)\<lparr>arg_type := (ex_typeinfo ARRAY)\<lparr>array_length := 0\<rparr>\<rparr>]
     VOID {}"

text \<open>A throwing function that returns a boolean and fills a caller-allocated structure.\<close>

definition get_iter_callable :: Callable where
  "get_iter_callable = ex_callable (ex_info
     [(ex_arg ''iter'' INTERFACE DIRECTION_OUT)\<lparr>arg_caller_allocates := True\<rparr>] BOOLEAN {THROWS})"

text \<open>A trampoline without parameters, return value or error slot whose target is the
  thread itself, and that thread, suspended.\<close>

definition resume_closure :: FfiClosure where
  "resume_closure = \<lparr>fc_callable = ex_callable (ex_info [] VOID {}),
     fc_callback = \<lparr>cb_L = 1, target_ref = None\<rparr>, autodestroy = False\<rparr>"

definition suspended_thread :: lua_thread where
  "suspended_thread = \<lparr>th_id = 1, th_status = LUA_YIELD, th_stack = []\<rparr>"

text \<open>A flags parameter stored in 32 bits.\<close>

definition flags_param :: Param where
  "flags_param = ex_param ((ex_arg ''flags'' INTERFACE DIRECTION_IN)
     \<lparr>arg_type := (ex_typeinfo INTERFACE)
        \<lparr>interface := \<lparr>base_type = INFO_FLAGS, storage_type = UINT32\<rparr>\<rparr>\<rparr>)"


text \<open>A trampoline for a callback with an input, an output and an integer return value,
  whose target is a function and which destroys itself after the call; and the running
  thread it was created on, with one value on its stack.\<close>

definition out_closure :: FfiClosure where
  "out_closure = \<lparr>fc_callable = ex_callable (ex_info
       [ex_arg ''x'' INT32 DIRECTION_IN, ex_arg ''result'' INT32 DIRECTION_OUT] INT32 {}),
     fc_callback = \<lparr>cb_L = 1, target_ref = Some (LFunction 0)\<rparr>, autodestroy = True\<rparr>"

definition running_thread :: lua_thread where
  "running_thread = \<lparr>th_id = 1, th_status = LUA_OK, th_stack = [LNumber 99]\<rparr>"

section \<open>Properties\<close>

subsection \<open>The layout of a plan\<close>

lemma length_mark_internal [simp]: "length (mark_internal j ps) = length ps"
  by (simp add: mark_internal_def)

lemma internal_mark_internal:
  "j < length ps \<Longrightarrow> k < length ps \<Longrightarrow>
     internal (mark_internal j ps ! k) = (internal (ps ! k) \<or> k = j)"
  by (auto simp: mark_internal_def nth_list_update)

lemma length_mark_array [simp]: "length (callable_mark_array_length cn ps t) = length ps"
  by (simp add: callable_mark_array_length_def Let_def)

lemma internal_mark_array:
  "cn \<le> length ps \<Longrightarrow> k < length ps \<Longrightarrow>
     internal (callable_mark_array_length cn ps t ! k) = (internal (ps ! k) \<or> length_mark cn t k)"
  by (auto simp: callable_mark_array_length_def Let_def length_mark_def internal_mark_internal)

lemma process_arg_length [simp]:
  "length (fst (process_arg sz n cn gi i (ps, fa))) = length ps"
  by (simp add: process_arg_def Let_def)

lemma process_arg_internal:
  assumes "length ps = n" "cn \<le> n" "i < n" "k < n"
  shows "internal (fst (process_arg sz n cn gi i (ps, fa)) ! k) =
     (internal (ps ! k) \<or> companion_mark n (callable_args gi ! i) k
        \<or> length_mark cn (arg_type (callable_args gi ! i)) k)"
proof -
  define a where "a = callable_args gi ! i"
  define ps1 where "ps1 = ps[i := (ps ! i)\<lparr>ai := a, ti := arg_type a, dir := arg_direction a,
                                    transfer := arg_ownership_transfer a\<rparr>]"
  define ps2 where "ps2 = (if arg_closure a > 0 \<and> arg_closure a < int n
                           then mark_internal (nat (arg_closure a)) ps1 else ps1)"
  define ps3 where "ps3 = (if arg_destroy a > 0 \<and> arg_destroy a < int n
                           then mark_internal (nat (arg_destroy a)) ps2 else ps2)"
  have l: "length ps1 = n" "length ps2 = n" "length ps3 = n"
    using assms(1) by (simp_all add: ps1_def ps2_def ps3_def)
  have i1: "internal (ps1 ! k) = internal (ps ! k)"
    using assms by (simp add: ps1_def nth_list_update)
  have t1: "ti (ps3 ! i) = arg_type a"
    using assms l by (auto simp: ps1_def ps2_def ps3_def mark_internal_def nth_list_update)
  have i2: "internal (ps2 ! k) = (internal (ps ! k) \<or> (0 < k \<and> k < n \<and> arg_closure a = int k))"
    using assms l i1 by (auto simp: ps2_def internal_mark_internal)
  have i3: "internal (ps3 ! k) = (internal (ps ! k) \<or> companion_mark n a k)"
    using assms l i2 by (auto simp: ps3_def internal_mark_internal companion_mark_def)
  have "fst (process_arg sz n cn gi i (ps, fa)) = callable_mark_array_length cn ps3 (ti (ps3 ! i))"
    by (simp add: process_arg_def Let_def a_def ps1_def ps2_def ps3_def)
  then show ?thesis
    using internal_mark_array[of cn ps3 k "ti (ps3 ! i)"] l assms i3 t1
    by (simp add: a_def)
qed

lemma param_ffi_arg_cong:
  "ti p = ti q \<Longrightarrow> dir p = dir q \<Longrightarrow> param_ffi_arg sz p = param_ffi_arg sz q"
  by (simp add: param_ffi_arg_def get_ffi_type_def Let_def)

lemma process_arg_snd:
  assumes "i < length ps"
  shows "snd (process_arg sz n cn gi i (ps, fa)) =
     fa @ [param_ffi_arg sz (loaded_param (callable_args gi ! i))]"
proof -
  define a where "a = callable_args gi ! i"
  define p1 where "p1 = (ps ! i)\<lparr>ai := a, ti := arg_type a, dir := arg_direction a,
                                    transfer := arg_ownership_transfer a\<rparr>"
  have "snd (process_arg sz n cn gi i (ps, fa)) = fa @ [param_ffi_arg sz (ps[i := p1] ! i)]"
    by (simp add: process_arg_def Let_def a_def p1_def)
  moreover have "ps[i := p1] ! i = p1" using assms by simp
  moreover have "param_ffi_arg sz p1 = param_ffi_arg sz (loaded_param a)"
    by (rule param_ffi_arg_cong) (simp_all add: p1_def loaded_param_def)
  ultimately show ?thesis by (simp add: a_def)
qed

lemma fold_process_arg:
  assumes "length ps = n" "cn \<le> n" "\<forall>i\<in>set is. i < n"
  shows "length (fst (fold (process_arg sz n cn gi) is (ps, fa))) = n
     \<and> snd (fold (process_arg sz n cn gi) is (ps, fa)) =
         fa @ map (\<lambda>i. param_ffi_arg sz (loaded_param (callable_args gi ! i))) is
     \<and> (\<forall>k<n. internal (fst (fold (process_arg sz n cn gi) is (ps, fa)) ! k) =
          (internal (ps ! k) \<or> (\<exists>i\<in>set is. companion_mark n (callable_args gi ! i) k
                \<or> length_mark cn (arg_type (callable_args gi ! i)) k)))"
  using assms
proof (induction "is" arbitrary: ps fa)
  case Nil
  then show ?case by simp
next
  case (Cons i "is")
  obtain ps' fa' where s: "process_arg sz n cn gi i (ps, fa) = (ps', fa')"
    by (cases "process_arg sz n cn gi i (ps, fa)")
  have i: "i < n" using Cons.prems by simp
  have l': "length ps' = n" using process_arg_length[of sz n cn gi i ps fa] s Cons.prems by simp
  have f': "fa' = fa @ [param_ffi_arg sz (loaded_param (callable_args gi ! i))]"
    using process_arg_snd[of i ps sz n cn gi fa] s i Cons.prems by simp
  have int': "\<forall>k<n. internal (ps' ! k) = (internal (ps ! k) \<or> companion_mark n (callable_args gi ! i) k
        \<or> length_mark cn (arg_type (callable_args gi ! i)) k)"
    using process_arg_internal[of ps n cn i _ sz gi fa] s i Cons.prems by simp
  have rest: "\<forall>i\<in>set is. i < n" using Cons.prems by simp
  note IH = Cons.IH[OF l' Cons.prems(2) rest, of fa']
  show ?case using IH int' f' s by auto
qed

lemma ex_nth_conv: "(\<exists>i\<in>set [0..<length xs]. P (xs ! i)) = (\<exists>a\<in>set xs. P a)"
  by (auto simp: set_conv_nth)

text \<open>What the construction loop leaves: one descriptor per declared argument; the slot
  types, a pointer for the receiver followed by the mapped type of each argument; and the
  exact set of internal parameters. Index \<open>k\<close> is internal if and only if the return type
  or some argument type is a C array with length index \<open>k\<close> (below the six-bit
  argument count), or some argument names \<open>k\<close> as its closure or destroy companion and
  \<open>k\<close> is not 0.\<close>

lemma callable_layout_props:
  defines "n \<equiv> \<lambda>gi. length (callable_args gi)"
  shows "length (fst (callable_layout sz gi self)) = n gi
     \<and> snd (callable_layout sz gi self) =
         (if self then [ffi_type_pointer] else [])
         @ map (\<lambda>a. param_ffi_arg sz (loaded_param a)) (callable_args gi)
     \<and> (\<forall>k<n gi. internal (fst (callable_layout sz gi self) ! k) =
          (length_mark (n gi mod 64) (return_type gi) k
           \<or> (\<exists>a\<in>set (callable_args gi). companion_mark (n gi) a k
                \<or> length_mark (n gi mod 64) (arg_type a) k)))"
proof -
  define N where "N = length (callable_args gi)"
  define ps0 where "ps0 = callable_mark_array_length (N mod 64) (replicate N unset_param) (return_type gi)"
  define fa0 where "fa0 = (if self then [ffi_type_pointer] else [])"
  have l0: "length ps0 = N" by (simp add: ps0_def)
  have cn: "N mod 64 \<le> N" by simp
  have i0: "\<forall>k<N. internal (ps0 ! k) = length_mark (N mod 64) (return_type gi) k"
    using internal_mark_array[of "N mod 64" "replicate N unset_param" _ "return_type gi"]
    by (simp add: ps0_def unset_param_def)
  have lay: "callable_layout sz gi self = fold (process_arg sz N (N mod 64) gi) [0..<N] (ps0, fa0)"
    by (simp add: callable_layout_def Let_def N_def ps0_def fa0_def)
  have r: "\<forall>i\<in>set [0..<N]. i < N" by simp
  note F = fold_process_arg[OF l0 cn r, of sz gi fa0]
  have m: "map (\<lambda>i. param_ffi_arg sz (loaded_param (callable_args gi ! i))) [0..<N]
      = map (\<lambda>a. param_ffi_arg sz (loaded_param a)) (callable_args gi)"
    unfolding N_def by (rule nth_equalityI) simp_all
  have e: "(\<exists>i\<in>set [0..<N]. companion_mark N (callable_args gi ! i) k
                \<or> length_mark (N mod 64) (arg_type (callable_args gi ! i)) k)
       = (\<exists>a\<in>set (callable_args gi). companion_mark N a k \<or> length_mark (N mod 64) (arg_type a) k)"
    for k
    unfolding N_def
    by (rule ex_nth_conv[where P="\<lambda>a. companion_mark (length (callable_args gi)) a k
              \<or> length_mark (length (callable_args gi) mod 64) (arg_type a) k"])
  show ?thesis
    unfolding n_def N_def[symmetric] lay using F i0 m e fa0_def by simp
qed

text \<open>A plan that is built (not taken from the cache) holds this layout, followed by a
  pointer slot for the error when the function throws.\<close>

lemma create_miss_plan:
  assumes "callable_cache L (cache_key env gi) = None"
    and "fst (lgi_callable_create env L gi addr) = Inr h"
  shows "\<exists>c. userdata (snd (lgi_callable_create env L gi addr)) h = Some c
      \<and> info c = gi \<and> nargs c = length (callable_args gi) mod 64
      \<and> params c = fst (callable_layout (sizeof_size_t env) gi (has_self c))
      \<and> cif_arg_types (cif c) =
          snd (callable_layout (sizeof_size_t env) gi (has_self c))
          @ (if throws c then [ffi_type_pointer] else [])"
  using assms
  by (auto simp: lgi_callable_create_def Let_def split_beta locate_error_def prep_cif_error_def
           split: if_splits)

subsection \<open>Native type mapping\<close>

text \<open>
  C3. For every parameter, the native slot type derived for it is the generic pointer type
  whenever its direction is not ``in'', or its type is a pointer type, or its tag is not one
  of the enumerated primitive tags; the enumerated tags map to the matching primitive, and
  enumerations and flags map to the primitive of their storage type (the pointer type when
  the storage tag is not enumerated). The mapping is a total function: it gives a type for
  every tag and raises nothing. The slot list of a plan is a pointer for the receiver, if
  any, followed by this type for each declared argument in order.
\<close>

theorem param_ffi_arg_table:
  "param_ffi_arg sz p =
     (if dir p \<noteq> DIRECTION_IN \<or> is_pointer (ti p) then ffi_type_pointer
      else case tag (ti p) of
          VOID \<Rightarrow> ffi_type_void
        | BOOLEAN \<Rightarrow> ffi_type_uint
        | INT8 \<Rightarrow> ffi_type_sint8
        | UINT8 \<Rightarrow> ffi_type_uint8
        | INT16 \<Rightarrow> ffi_type_sint16
        | UINT16 \<Rightarrow> ffi_type_uint16
        | INT32 \<Rightarrow> ffi_type_sint32
        | UINT32 \<Rightarrow> ffi_type_uint32
        | INT64 \<Rightarrow> ffi_type_sint64
        | UINT64 \<Rightarrow> ffi_type_uint64
        | FLOAT \<Rightarrow> ffi_type_float
        | DOUBLE \<Rightarrow> ffi_type_double
        | GTYPE \<Rightarrow> (if sz = 4 then ffi_type_uint32 else ffi_type_uint64)
        | INTERFACE \<Rightarrow>
            (if base_type (interface (ti p)) = INFO_ENUM
                \<or> base_type (interface (ti p)) = INFO_FLAGS
             then (case get_simple_ffi_type sz (storage_type (interface (ti p))) of
                     Some t \<Rightarrow> t | None \<Rightarrow> ffi_type_pointer)
             else ffi_type_pointer)
        | _ \<Rightarrow> ffi_type_pointer)
   \<and> snd (callable_layout sz gi self) =
       (if self then [ffi_type_pointer] else [])
       @ map (\<lambda>a. param_ffi_arg sz (loaded_param a)) (callable_args gi)
   \<and> dir (loaded_param a) = arg_direction a \<and> ti (loaded_param a) = arg_type a"
proof -
  have "param_ffi_arg sz p =
     (if dir p \<noteq> DIRECTION_IN \<or> is_pointer (ti p) then ffi_type_pointer
      else case tag (ti p) of
          VOID \<Rightarrow> ffi_type_void
        | BOOLEAN \<Rightarrow> ffi_type_uint
        | INT8 \<Rightarrow> ffi_type_sint8
        | UINT8 \<Rightarrow> ffi_type_uint8
        | INT16 \<Rightarrow> ffi_type_sint16
        | UINT16 \<Rightarrow> ffi_type_uint16
        | INT32 \<Rightarrow> ffi_type_sint32
        | UINT32 \<Rightarrow> ffi_type_uint32
        | INT64 \<Rightarrow> ffi_type_sint64
        | UINT64 \<Rightarrow> ffi_type_uint64
        | FLOAT \<Rightarrow> ffi_type_float
        | DOUBLE \<Rightarrow> ffi_type_double
        | GTYPE \<Rightarrow> (if sz = 4 then ffi_type_uint32 else ffi_type_uint64)
        | INTERFACE \<Rightarrow>
            (if base_type (interface (ti p)) = INFO_ENUM
                \<or> base_type (interface (ti p)) = INFO_FLAGS
             then (case get_simple_ffi_type sz (storage_type (interface (ti p))) of
                     Some t \<Rightarrow> t | None \<Rightarrow> ffi_type_pointer)
             else ffi_type_pointer)
        | _ \<Rightarrow> ffi_type_pointer)"
    by (cases "tag (ti p)"; cases "base_type (interface (ti p))")
       (simp_all add: param_ffi_arg_def get_ffi_type_def Let_def)
  moreover have "snd (callable_layout sz gi self) =
       (if self then [ffi_type_pointer] else [])
       @ map (\<lambda>a. param_ffi_arg sz (loaded_param a)) (callable_args gi)"
    using callable_layout_props[of sz gi self] by blast
  moreover have "dir (loaded_param a) = arg_direction a \<and> ti (loaded_param a) = arg_type a"
    by (simp add: loaded_param_def)
  ultimately show ?thesis by blast
qed

theorem param_ffi_arg_table_witness:
  "dir flags_param = DIRECTION_IN \<and> \<not> is_pointer (ti flags_param)
   \<and> param_ffi_arg 8 flags_param = ffi_type_uint32
   \<and> param_ffi_arg 8 (flags_param\<lparr>dir := DIRECTION_INOUT\<rparr>) = ffi_type_pointer
   \<and> snd (callable_layout 8 length0_info True)
      = [ffi_type_pointer, ffi_type_sint32, ffi_type_pointer]"
proof -
  have l: "snd (callable_layout 8 length0_info True)
      = [ffi_type_pointer, ffi_type_sint32, ffi_type_pointer]"
    by code_simp
  show ?thesis
    using l param_ffi_arg_table [of 8 flags_param length0_info True "ex_arg ''x'' INT32 DIRECTION_IN"]
        param_ffi_arg_table [of 8 "flags_param\<lparr>dir := DIRECTION_INOUT\<rparr>" length0_info True
              "ex_arg ''x'' INT32 DIRECTION_IN"]
    by (simp add: flags_param_def ex_param_def ex_arg_def ex_typeinfo_def)
qed

subsection \<open>The cache of Call Plans\<close>

lemma cache_key_eq:
  "cache_key env gi =
     string_of_nat (info_type_code env (info_type gi)) @ '':'' @ concat (type_name gi)"
  by (simp add: cache_key_def)

lemma create_hit:
  assumes "callable_cache L (cache_key env gi) = Some h"
  shows "lgi_callable_create env L gi addr = (Inr h, L)"
  using assms by (simp add: lgi_callable_create_def)

lemma create_miss_n_userdata:
  assumes "callable_cache L (cache_key env gi) = None"
  shows "n_userdata (snd (lgi_callable_create env L gi addr)) = Suc (n_userdata L)"
  using assms by (simp add: lgi_callable_create_def Let_def split_beta)

lemma create_miss_cache:
  assumes "callable_cache L (cache_key env gi) = None"
  shows "callable_cache (snd (lgi_callable_create env L gi addr)) =
     (case fst (lgi_callable_create env L gi addr) of
        Inl e \<Rightarrow> callable_cache L
      | Inr h \<Rightarrow> (callable_cache L)(cache_key env gi \<mapsto> h))"
  using assms by (simp add: lgi_callable_create_def Let_def split_beta)

lemma create_miss_result:
  assumes "callable_cache L (cache_key env gi) = None"
  shows "fst (lgi_callable_create env L gi addr) = Inr (n_userdata L)
     \<or> fst (lgi_callable_create env L gi addr) =
          Inl (locate_error (cache_key env gi) (function_symbol gi) (module_error env))
     \<or> fst (lgi_callable_create env L gi addr) = Inl (prep_cif_error (concat (type_name gi)))"
  using assms by (simp add: lgi_callable_create_def Let_def split_beta)

lemma create_Inr_cache:
  assumes "lgi_callable_create env L gi addr = (Inr h, L')"
  shows "callable_cache L' (cache_key env gi) = Some h"
proof (cases "callable_cache L (cache_key env gi)")
  case None
  from create_miss_cache[OF None, of addr] assms show ?thesis by simp
next
  case (Some a)
  from create_hit[OF Some, of addr] assms show ?thesis using Some by simp
qed

lemma create_Inl_miss:
  assumes "lgi_callable_create env L gi addr = (Inl e, L')"
  shows "callable_cache L (cache_key env gi) = None"
proof (cases "callable_cache L (cache_key env gi)")
  case (Some a)
  from create_hit[OF Some, of addr] assms show ?thesis by simp
qed simp

lemma locate_error_names:
  "\<exists>pre post. locate_error (cache_key env gi) symbol reason
      = LuaError (pre @ concat (type_name gi) @ post)"
proof -
  have "locate_error (cache_key env gi) symbol reason =
     LuaError ((''could not locate '' @ string_of_nat (info_type_code env (info_type gi)) @ '':'')
               @ concat (type_name gi) @ (''('' @ symbol @ ''): '' @ reason))"
    by (simp add: locate_error_def cache_key_eq)
  then show ?thesis by blast
qed

lemma prep_cif_error_names:
  "\<exists>pre post. prep_cif_error (concat (type_name gi))
      = LuaError (pre @ concat (type_name gi) @ post)"
proof -
  have "prep_cif_error (concat (type_name gi)) =
     LuaError (''ffi_prep_cif for `'' @ concat (type_name gi) @ ([CHR 0x27] @ '' failed''))"
    by (simp add: prep_cif_error_def)
  then show ?thesis by blast
qed

text \<open>
  C4. When a Call Plan has been built for a description, building again for a description
  of the same kind and the same qualified name, from the state the first build left,
  returns the very same userdata and leaves the state as it is: nothing is allocated or
  rebuilt. The key looked up is the kind's number, a colon and the qualified name.
\<close>

theorem callable_create_twice_same_plan:
  assumes "lgi_callable_create env L gi addr = (Inr h, L')"
    and "info_type gi' = info_type gi"
    and "concat (type_name gi') = concat (type_name gi)"
  shows "lgi_callable_create env L' gi' addr' = (Inr h, L')
     \<and> callable_cache L' (cache_key env gi) = Some h
     \<and> cache_key env gi' = cache_key env gi
     \<and> cache_key env gi =
         string_of_nat (info_type_code env (info_type gi)) @ '':'' @ concat (type_name gi)"
proof -
  have k: "cache_key env gi' = cache_key env gi"
    using assms(2,3) by (simp add: cache_key_eq)
  have c: "callable_cache L' (cache_key env gi) = Some h"
    using assms(1) by (rule create_Inr_cache)
  then have "lgi_callable_create env L' gi' addr' = (Inr h, L')"
    using k by (simp add: create_hit)
  then show ?thesis using k c by (simp add: cache_key_eq)
qed

theorem callable_create_twice_same_plan_witness:
  "fst (lgi_callable_create (ex_gi_env 8) ex_state closure1_info None) = Inr 0
   \<and> lgi_callable_create (ex_gi_env 8)
        (snd (lgi_callable_create (ex_gi_env 8) ex_state closure1_info None))
        (closure1_info\<lparr>callable_args := []\<rparr>) (Some 5)
      = (Inr 0, snd (lgi_callable_create (ex_gi_env 8) ex_state closure1_info None))"
proof -
  have f: "fst (lgi_callable_create (ex_gi_env 8) ex_state closure1_info None) = Inr 0"
    by code_simp
  have h: "lgi_callable_create (ex_gi_env 8) ex_state closure1_info None
      = (Inr 0, snd (lgi_callable_create (ex_gi_env 8) ex_state closure1_info None))"
    using f by (simp add: prod_eq_iff)
  show ?thesis
    using f callable_create_twice_same_plan
      [OF h, of "closure1_info\<lparr>callable_args := []\<rparr>" "Some 5"]
    by simp
qed

text \<open>
  C8. When building a Call Plan fails (the symbol is not found, or the cif is rejected),
  the cache is left as it was and holds nothing under the description's key; the error
  message contains the qualified name of the callable; and the next build for the same
  description does not come from the cache: it allocates a new userdata and, if it
  succeeds, returns that new userdata and enters it into the cache.
\<close>

theorem callable_create_failure_not_cached:
  assumes "lgi_callable_create env L gi addr = (Inl e, L')"
  shows "callable_cache L' = callable_cache L
     \<and> callable_cache L' (cache_key env gi) = None
     \<and> (\<exists>pre post. e = LuaError (pre @ concat (type_name gi) @ post))
     \<and> (\<forall>(env'::gi_env) addr'. info_type_code env' = info_type_code env \<longrightarrow>
          n_userdata (snd (lgi_callable_create env' L' gi addr')) = Suc (n_userdata L')
          \<and> (\<forall>h L''. lgi_callable_create env' L' gi addr' = (Inr h, L'') \<longrightarrow>
                h = n_userdata L'
                \<and> callable_cache L'' = (callable_cache L')(cache_key env gi \<mapsto> h)))"
proof -
  have miss: "callable_cache L (cache_key env gi) = None"
    using assms by (rule create_Inl_miss)
  have c: "callable_cache L' = callable_cache L"
    using create_miss_cache[OF miss, of addr] assms by simp
  have e: "e = locate_error (cache_key env gi) (function_symbol gi) (module_error env)
        \<or> e = prep_cif_error (concat (type_name gi))"
    using create_miss_result[OF miss, of addr] assms by simp
  have n: "\<exists>pre post. e = LuaError (pre @ concat (type_name gi) @ post)"
    using e locate_error_names[of env gi] prep_cif_error_names[of gi] by blast
  have r: "\<forall>(env'::gi_env) addr'. info_type_code env' = info_type_code env \<longrightarrow>
          n_userdata (snd (lgi_callable_create env' L' gi addr')) = Suc (n_userdata L')
          \<and> (\<forall>h L''. lgi_callable_create env' L' gi addr' = (Inr h, L'') \<longrightarrow>
                h = n_userdata L'
                \<and> callable_cache L'' = (callable_cache L')(cache_key env gi \<mapsto> h))"
  proof (intro allI impI)
    fix env' :: gi_env and addr' :: "nat option"
    assume tc: "info_type_code env' = info_type_code env"
    then have k: "cache_key env' gi = cache_key env gi" by (simp add: cache_key_def)
    have m': "callable_cache L' (cache_key env' gi) = None" using miss c k by simp
    have a: "n_userdata (snd (lgi_callable_create env' L' gi addr')) = Suc (n_userdata L')"
      by (rule create_miss_n_userdata[OF m'])
    have b: "\<forall>h L''. lgi_callable_create env' L' gi addr' = (Inr h, L'') \<longrightarrow>
                h = n_userdata L'
                \<and> callable_cache L'' = (callable_cache L')(cache_key env gi \<mapsto> h)"
    proof (intro allI impI)
      fix h L'' assume r: "lgi_callable_create env' L' gi addr' = (Inr h, L'')"
      have "h = n_userdata L'" using create_miss_result[OF m', of addr'] r
        by (simp add: locate_error_def prep_cif_error_def)
      moreover have "callable_cache L'' = (callable_cache L')(cache_key env gi \<mapsto> h)"
        using create_miss_cache[OF m', of addr'] r k by simp
      ultimately show "h = n_userdata L'
          \<and> callable_cache L'' = (callable_cache L')(cache_key env gi \<mapsto> h)" by simp
    qed
    show "n_userdata (snd (lgi_callable_create env' L' gi addr')) = Suc (n_userdata L')
          \<and> (\<forall>h L''. lgi_callable_create env' L' gi addr' = (Inr h, L'') \<longrightarrow>
                h = n_userdata L'
                \<and> callable_cache L'' = (callable_cache L')(cache_key env gi \<mapsto> h))"
      using a b by blast
  qed
  show ?thesis using c miss n r by simp
qed

theorem callable_create_failure_not_cached_witness:
  "fst (lgi_callable_create (ex_gi_env 0) ex_state closure0_info None)
     = Inl (prep_cif_error ''Ns.fn'')
   \<and> callable_cache (snd (lgi_callable_create (ex_gi_env 0) ex_state closure0_info None))
       (cache_key (ex_gi_env 0) closure0_info) = None
   \<and> n_userdata (snd (lgi_callable_create (ex_gi_env 8)
        (snd (lgi_callable_create (ex_gi_env 0) ex_state closure0_info None))
        closure0_info None)) = 2"
proof -
  have f: "fst (lgi_callable_create (ex_gi_env 0) ex_state closure0_info None)
      = Inl (prep_cif_error ''Ns.fn'')"
    by code_simp
  have n: "n_userdata (snd (lgi_callable_create (ex_gi_env 0) ex_state closure0_info None)) = 1"
    by code_simp
  have h: "lgi_callable_create (ex_gi_env 0) ex_state closure0_info None
      = (Inl (prep_cif_error ''Ns.fn''),
         snd (lgi_callable_create (ex_gi_env 0) ex_state closure0_info None))"
    using f by (simp add: prod_eq_iff)
  have t: "info_type_code (ex_gi_env 8) = info_type_code (ex_gi_env 0)"
    by (simp add: ex_gi_env_def)
  note r = callable_create_failure_not_cached [OF h]
  have c: "callable_cache (snd (lgi_callable_create (ex_gi_env 0) ex_state closure0_info None))
       (cache_key (ex_gi_env 0) closure0_info) = None"
    using r by blast
  have a: "n_userdata (snd (lgi_callable_create (ex_gi_env 8)
        (snd (lgi_callable_create (ex_gi_env 0) ex_state closure0_info None))
        closure0_info None))
      = Suc (n_userdata (snd (lgi_callable_create (ex_gi_env 0) ex_state closure0_info None)))"
    using r t by blast
  show ?thesis using f c a n by simp
qed

subsection \<open>Event closures\<close>




subsection \<open>Traces\<close>

lemma guard_free_simps [simp]:
  "guard_free []" "guard_free (xs @ ys) = (guard_free xs \<and> guard_free ys)"
  "guard_free (e # xs) = (e \<noteq> Ev_mutex_lock \<and> e \<noteq> Ev_mutex_unlock \<and> e \<noteq> Ev_ffi_call \<and> guard_free xs)"
  by (auto simp: guard_free_def)

lemma fold_ext:
  assumes "\<And>i st. \<exists>evs. tr (f i st) = tr st @ evs \<and> P evs"
    and "P []" and "\<And>a b. P a \<Longrightarrow> P b \<Longrightarrow> P (a @ b)"
  shows "\<exists>evs. tr (fold f is st) = tr st @ evs \<and> P evs"
proof (induction "is" arbitrary: st)
  case Nil
  show ?case using assms(2) by simp
next
  case (Cons i "is")
  obtain e1 where e1: "tr (f i st) = tr st @ e1" "P e1" using assms(1) by blast
  obtain e2 where e2: "tr (fold f is (f i st)) = tr (f i st) @ e2" "P e2"
    using Cons.IH by blast
  have "tr (fold f (i # is) st) = tr st @ (e1 @ e2)" using e1 e2 by simp
  moreover have "P (e1 @ e2)" using e1 e2 assms(3) by simp
  ultimately show ?case by blast
qed

subsection \<open>Forward invocation\<close>

lemma quiet_simps [simp]:
  "quiet []" "quiet (xs @ ys) = (quiet xs \<and> quiet ys)"
  "quiet [Ev_marshal_arg_2c w n]" "quiet [Ev_marshal_arg_2lua w]" "quiet [Ev_caller_alloc i]"
  "quiet [Ev_self_2c]"
  by (auto simp: quiet_def guard_free_def)

lemma marshal_in_trace:
  "\<exists>evs. trace (marshal_in m c i st) = trace st @ evs \<and> quiet evs"
  by (simp add: marshal_in_def Let_def split_beta split: option.splits)

lemma marshal_out_trace:
  "\<exists>evs. trace (marshal_out m c i st) = trace st @ evs \<and> quiet evs"
  by (simp add: marshal_out_def Let_def)

lemma marshal_out_nret:
  "nret (marshal_out m c i st) = nret st + (if visible_out c i then 1 else 0)"
  by (simp add: marshal_out_def visible_out_def Let_def)

lemma fold_marshal_out_nret:
  "nret (fold (marshal_out m c) is st) = nret st + length (filter (visible_out c) is)"
  by (induction "is" arbitrary: st) (simp_all add: marshal_out_nret)

lemma call_self_props:
  "quiet (trace (call_self m c L)) \<and> nret (call_self m c L) = 0
     \<and> caller_allocated (call_self m c L) = 0
     \<and> length (stack (call_self m c L)) = of_bool (has_self c) + nargs c + 1"
  by (auto simp: call_self_def Let_def lua_settop_def min_def)

lemma call_inputs_unfold:
  "\<exists>st1. call_inputs m c L = fold (marshal_in m c) [0..<nargs c] st1 \<and> quiet (trace st1)
     \<and> nret st1 = 0 \<and> caller_allocated st1 = 0
     \<and> length (stack st1) = of_bool (has_self c) + nargs c + 1"
  using call_self_props[of m c L] unfolding call_inputs_def by blast

lemma call_inputs_trace: "quiet (trace (call_inputs m c L))"
proof -
  obtain st1 where st1: "call_inputs m c L = fold (marshal_in m c) [0..<nargs c] st1" "quiet (trace st1)"
    using call_inputs_unfold by blast
  obtain evs where "trace (fold (marshal_in m c) [0..<nargs c] st1) = trace st1 @ evs" "quiet evs"
    using fold_ext[of trace "marshal_in m c" quiet, OF marshal_in_trace] by auto
  then show ?thesis using st1 by simp
qed

lemma call_native_trace:
  "trace (fst (call_native m c st)) = trace st @ [Ev_mutex_unlock, Ev_ffi_call, Ev_mutex_lock]
      @ (if tag (ti (retval c)) \<noteq> VOID then [Ev_marshal_arg_2lua None] else [])"
  by (simp add: call_native_def Let_def)

lemma call_native_nret:
  "nret (fst (call_native m c st)) = (if tag (ti (retval c)) \<noteq> VOID then 1 else 0)"
  by (simp add: call_native_def Let_def)


lemma length_lua_insert [simp]: "length (lua_insert idx L) = length L"
proof (cases "L = []")
  case True
  then show ?thesis by (simp add: lua_insert_def Let_def)
next
  case False
  then have "length (butlast L) + 1 = length L" by simp
  then show ?thesis by (auto simp: lua_insert_def Let_def)
qed









lemma callable_call_None:
  assumes "native_error m c L = None"
  shows "callable_call m c L =
     (let st = fold (marshal_out m c) [0..<nargs c] (fst (call_native m c (call_inputs m c L)));
          st = (if nret st = 0 \<and> throws c
                then st\<lparr>stack := stack st @ [LBool True], nret := 1,
                        trace := trace st @ [Ev_push (LBool True)]\<rparr>
                else st)
      in if caller_allocated st \<noteq> 0 then (Inl AssertionFailed, trace st)
         else (Inr (lua_return (nret st) (stack st)), trace st))"
  using assms unfolding callable_call_def native_error_def
  by (simp add: split_beta Let_def)

lemma callable_call_Some:
  assumes "native_error m c L = Some e"
  shows "callable_call m c L =
     (let st = fst (call_native m c (call_inputs m c L));
          st = (if nret st = 0
                then st\<lparr>stack := stack st @ [LBool False], nret := 1,
                        trace := trace st @ [Ev_push (LBool False)]\<rparr>
                else st);
          st = st\<lparr>stack := stack st @ [LString (message e), LNumber (code e)],
                  trace := trace st @ [Ev_push (LString (message e)),
                                       Ev_push (LNumber (code e))]\<rparr>
      in (Inr (lua_return (nret st + 2) (stack st)), trace st))"
  using assms unfolding callable_call_def native_error_def
  by (simp add: split_beta Let_def)

lemma outputs_nret:
  "nret (fold (marshal_out m c) [0..<nargs c] (fst (call_native m c st))) = visible_outputs c"
  by (simp add: fold_marshal_out_nret call_native_nret visible_outputs_def out_slots_def)

lemma callable_call_trace:
  "\<exists>pre out. quiet pre \<and> quiet out \<and>
     snd (callable_call m c L) =
       pre @ [Ev_mutex_unlock, Ev_ffi_call, Ev_mutex_lock] @ out @
       (case native_error m c L of
          Some e \<Rightarrow> (if tag (ti (retval c)) = VOID then [Ev_push (LBool False)] else [])
                    @ [Ev_push (LString (message e)), Ev_push (LNumber (code e))]
        | None \<Rightarrow> (if visible_outputs c = 0 \<and> throws c then [Ev_push (LBool True)] else []))"
proof -
  define st0 where "st0 = call_inputs m c L"
  define st1 where "st1 = fst (call_native m c st0)"
  define r where "r = (if tag (ti (retval c)) \<noteq> VOID then [Ev_marshal_arg_2lua None] else [])"
  have q0: "quiet (trace st0)" unfolding st0_def by (rule call_inputs_trace)
  have t1: "trace st1 = trace st0 @ [Ev_mutex_unlock, Ev_ffi_call, Ev_mutex_lock] @ r"
    unfolding st1_def r_def by (rule call_native_trace)
  have qr: "quiet r" unfolding r_def by simp
  have n1: "nret st1 = (if tag (ti (retval c)) \<noteq> VOID then 1 else 0)"
    unfolding st1_def by (rule call_native_nret)
  show ?thesis
  proof (cases "native_error m c L")
    case (Some e)
    have "snd (callable_call m c L) = trace st0 @ [Ev_mutex_unlock, Ev_ffi_call, Ev_mutex_lock] @ r @
        ((if tag (ti (retval c)) = VOID then [Ev_push (LBool False)] else [])
                    @ [Ev_push (LString (message e)), Ev_push (LNumber (code e))])"
      using t1 n1 unfolding callable_call_Some[OF Some] st0_def[symmetric] st1_def[symmetric]
      by (simp add: Let_def)
    then show ?thesis using Some q0 qr by auto
  next
    case None
    define st2 where "st2 = fold (marshal_out m c) [0..<nargs c] st1"
    obtain evs where evs: "trace st2 = trace st1 @ evs" "quiet evs"
      unfolding st2_def using fold_ext[of trace "marshal_out m c" quiet, OF marshal_out_trace] by auto
    have n2: "nret st2 = visible_outputs c"
      unfolding st2_def st1_def by (rule outputs_nret)
    have "snd (callable_call m c L) = trace st0 @ [Ev_mutex_unlock, Ev_ffi_call, Ev_mutex_lock] @ (r @ evs) @
        (if visible_outputs c = 0 \<and> throws c then [Ev_push (LBool True)] else [])"
      using t1 evs n2 unfolding callable_call_None[OF None] st0_def[symmetric] st1_def[symmetric]
      by (simp add: Let_def st2_def[symmetric])
    moreover have "quiet (r @ evs)" using qr evs by simp
    ultimately show ?thesis using None q0 by (metis option.simps(4))
  qed
qed










subsection \<open>Trampoline invocation\<close>

lemma lua_pop_append [simp]: "lua_pop (length ts) (L @ ts) = L"
  by (simp add: lua_pop_def)

lemma out_events_guard_free [simp]: "guard_free (out_events m c L n w)"
  by (simp add: out_events_def Let_def)

lemma out_trace_guard_free [simp]: "guard_free (out_trace m c L n ws)"
  by (induction ws arbitrary: n) simp_all

lemma out_trace_append:
  "out_trace m c L n (ws @ vs) = out_trace m c L n ws @ out_trace m c L (n + length ws) vs"
  by (induction ws arbitrary: n) simp_all

lemma callback_ret_eq:
  "callback_ret m c st =
     (if tag (ti (retval c)) \<noteq> VOID
      then st\<lparr>cb_ret := Some (fst (marshal_arg_2c m (ti (retval c)) (transfer (retval c)) (cb_stack st) (cb_npos st))),
              cb_trace := cb_trace st @ out_events m c (cb_stack st) (cb_npos st) None,
              cb_npos := Suc (cb_npos st)\<rparr>
      else st)"
  by (simp add: callback_ret_def out_events_def slot_param_def Let_def split_beta)

lemma callback_out_eq:
  "callback_out m c i st =
     (if visible_out c i
      then st\<lparr>cb_args := (cb_args st)[i + of_bool (has_self c) :=
                  fst (marshal_arg_2c m (ti (params c ! i)) (transfer (params c ! i)) (cb_stack st) (cb_npos st))],
              cb_trace := cb_trace st @ out_events m c (cb_stack st) (cb_npos st) (Some i),
              cb_npos := Suc (cb_npos st)\<rparr>
      else st)"
  by (simp add: callback_out_def visible_out_def out_events_def slot_param_def Let_def split_beta)

lemma fold_callback_out:
  "cb_stack (fold (callback_out m c) is st) = cb_stack st
   \<and> cb_npos (fold (callback_out m c) is st) = cb_npos st + length (filter (visible_out c) is)
   \<and> cb_ret (fold (callback_out m c) is st) = cb_ret st
   \<and> cb_trace (fold (callback_out m c) is st) =
       cb_trace st @ out_trace m c (cb_stack st) (cb_npos st) (map Some (filter (visible_out c) is))"
proof (induction "is" arbitrary: st)
  case Nil
  show ?case by simp
next
  case (Cons i "is")
  show ?case
  proof (cases "visible_out c i")
    case True
    then show ?thesis using Cons.IH[of "callback_out m c i st"]
      by (simp add: callback_out_eq)
  next
    case False
    then show ?thesis using Cons.IH[of st] by (simp add: callback_out_eq)
  qed
qed

lemma callback_results_ok:
  "\<exists>st'. callback_results m c LUA_OK st = Inr st'
     \<and> cb_stack st' = cb_stack st
     \<and> cb_npos st' = cb_npos st + length (out_slots c)
     \<and> cb_trace st' = cb_trace st @ out_trace m c (cb_stack st) (cb_npos st) (out_slots c)"
proof (cases "tag (ti (retval c)) \<noteq> VOID")
  case True
  then show ?thesis
    using fold_callback_out[of m c "[0..<nargs c]" "callback_ret m c st"]
    by (simp add: callback_results_def callback_ret_eq out_slots_def)
next
  case False
  then show ?thesis
    using fold_callback_out[of m c "[0..<nargs c]" "callback_ret m c st"]
    by (simp add: callback_results_def callback_ret_eq out_slots_def)
qed

lemma callback_prepare_trace:
  "snd (snd (snd (callback_prepare_call te cb th))) = [Ev_mutex_lock]"
  by (simp add: callback_prepare_call_def Let_def split: option.splits)

lemma callback_self_trace:
  assumes "callback_self m c st = Inr st'"
  shows "\<exists>evs. cb_trace st' = cb_trace st @ evs \<and> guard_free evs"
  using assms by (auto simp: callback_self_def Let_def split: if_splits)

lemma callback_self_ok:
  assumes "has_self c \<longrightarrow> container_type (info c) \<in> {INFO_OBJECT, INFO_INTERFACE, INFO_STRUCT, INFO_UNION}"
  shows "\<exists>st'. callback_self m c st = Inr st'"
  using assms by (auto simp: callback_self_def Let_def)

lemma callback_in_trace:
  "\<exists>evs. cb_trace (callback_in m c i st) = cb_trace st @ evs \<and> guard_free evs"
  by (simp add: callback_in_def Let_def)

lemma callback_invoke_trace:
  "\<exists>ev. cb_trace (snd (callback_invoke te c cb call stacktop st)) = cb_trace st @ [ev]
     \<and> (ev = Ev_call \<or> ev = Ev_pcall \<or> ev = Ev_resume)"
  by (simp add: callback_invoke_def Let_def split_beta)

lemma callback_invoke_ok:
  assumes "\<forall>t a. fst (run_target te t a) = LUA_OK"
  shows "fst (callback_invoke te c cb call stacktop st) = Inr LUA_OK"
  using assms by (simp add: callback_invoke_def Let_def split_beta)

lemma callback_results_trace:
  assumes "callback_results m c res st = Inr st'"
  shows "\<exists>evs. cb_trace st' = cb_trace st @ evs \<and> guard_free evs"
proof (cases "res = LUA_OK")
  case True
  then show ?thesis using callback_results_ok[of m c st] assms by auto
next
  case False
  then show ?thesis using assms
    by (auto simp: callback_results_def Let_def split: if_splits)
qed

lemma closure_callback_trace:
  "\<exists>body. cb_trace (snd (closure_callback m te cl th native_args)) =
       Ev_mutex_lock # body
       @ (if fst (closure_callback m te cl th native_args) = Inr () then [Ev_mutex_unlock] else [])
     \<and> guard_free body"
proof -
  define p where "p = callback_prepare_call te (fc_callback cl) th"
  define L where "L = fst p"
  define call where "call = fst (snd p)"
  define cb where "cb = fst (snd (snd p))"
  define c where "c = fc_callable cl"
  define stacktop where "stacktop = length (th_stack L) - (if call then 1 else 0)"
  define st0 where "st0 = \<lparr>cb_stack = th_stack L, cb_npos = 0, cb_ret = None,
     cb_args = native_args, cb_trace = [Ev_mutex_lock]\<rparr>"
  have p: "callback_prepare_call te (fc_callback cl) th = (L, call, cb, [Ev_mutex_lock])"
    using callback_prepare_trace[of te "fc_callback cl" th]
    unfolding L_def call_def cb_def p_def by (simp add: prod_eq_iff)
  show ?thesis
  proof (cases "callback_self m c st0")
    case (Inl e)
    then have "closure_callback m te cl th native_args = (Inl e, st0)"
      unfolding closure_callback_def p
      by (simp add: Let_def c_def[symmetric] st0_def[symmetric])
    then show ?thesis by (simp add: st0_def)
  next
    case (Inr st1)
    obtain e1 where e1: "cb_trace st1 = cb_trace st0 @ e1" "guard_free e1"
      using callback_self_trace[OF Inr] by blast
    define st2 where "st2 = fold (callback_in m c) [0..<nargs c] st1"
    obtain e2 where e2: "cb_trace st2 = cb_trace st1 @ e2" "guard_free e2"
      unfolding st2_def
      using fold_ext[of cb_trace "callback_in m c" guard_free, OF callback_in_trace] by auto
    define r where "r = callback_invoke te c cb call stacktop st2"
    obtain ev where ev: "cb_trace (snd r) = cb_trace st2 @ [ev]" "guard_free [ev]"
      unfolding r_def using callback_invoke_trace[of te c cb call stacktop st2] by auto
    have t3: "cb_trace (snd r) = Ev_mutex_lock # (e1 @ e2 @ [ev])"
      using e1 e2 ev by (simp add: st0_def)
    have g3: "guard_free (e1 @ e2 @ [ev])" using e1 e2 ev by simp
    show ?thesis
    proof (cases "fst r")
      case (Inl e)
      then have "closure_callback m te cl th native_args = (Inl e, snd r)"
        unfolding closure_callback_def p
        using Inr
        by (simp add: Let_def c_def[symmetric] st0_def[symmetric] stacktop_def[symmetric]
              st2_def[symmetric] r_def[symmetric] split_beta)
      then show ?thesis using t3 g3 by auto
    next
      case (Inr res)
      note res = Inr
      define st4 where "st4 = (snd r)\<lparr>cb_npos := stacktop + 1\<rparr>"
      have t4: "cb_trace st4 = Ev_mutex_lock # (e1 @ e2 @ [ev])" using t3 by (simp add: st4_def)
      show ?thesis
      proof (cases "callback_results m c res st4")
        case (Inl e)
        then have "closure_callback m te cl th native_args = (Inl e, st4)"
          unfolding closure_callback_def p
          using \<open>callback_self m c st0 = Inr st1\<close> res
          by (simp add: Let_def c_def[symmetric] st0_def[symmetric] stacktop_def[symmetric]
                st2_def[symmetric] r_def[symmetric] split_beta st4_def)
        then show ?thesis using t4 g3 by auto
      next
        case (Inr st5)
        obtain e5 where e5: "cb_trace st5 = cb_trace st4 @ e5" "guard_free e5"
          using callback_results_trace[OF Inr] by blast
        define gc where "gc = (if autodestroy cl then [Ev_guard_create] else [])"
        have "fst (closure_callback m te cl th native_args) = Inr ()
           \<and> cb_trace (snd (closure_callback m te cl th native_args)) = cb_trace st5 @ gc @ [Ev_mutex_unlock]"
          unfolding closure_callback_def p
          using \<open>callback_self m c st0 = Inr st1\<close> res Inr
          by (simp add: Let_def c_def[symmetric] st0_def[symmetric] stacktop_def[symmetric]
                st2_def[symmetric] r_def[symmetric] split_beta st4_def gc_def)
        then have "fst (closure_callback m te cl th native_args) = Inr ()"
          and "cb_trace (snd (closure_callback m te cl th native_args)) =
               Ev_mutex_lock # ((e1 @ e2 @ [ev]) @ e5 @ gc) @ [Ev_mutex_unlock]"
          using e5 t4 by simp_all
        moreover have "guard_free ((e1 @ e2 @ [ev]) @ e5 @ gc)"
          using g3 e5 by (simp add: gc_def)
        ultimately show ?thesis by (metis (full_types))
      qed
    qed
  qed
qed

lemma closure_callback_ok:
  assumes ok: "\<forall>t a. fst (run_target te t a) = LUA_OK"
    and self: "has_self (fc_callable cl) \<longrightarrow> container_type (info (fc_callable cl))
                 \<in> {INFO_OBJECT, INFO_INTERFACE, INFO_STRUCT, INFO_UNION}"
  shows "fst (closure_callback m te cl th native_args) = Inr ()
     \<and> (\<exists>pre L npos. cb_trace (snd (closure_callback m te cl th native_args)) =
           pre @ out_trace m (fc_callable cl) L npos (out_slots (fc_callable cl))
           @ (if autodestroy cl then [Ev_guard_create] else []) @ [Ev_mutex_unlock])"
proof -
  define p where "p = callback_prepare_call te (fc_callback cl) th"
  define L where "L = fst p"
  define call where "call = fst (snd p)"
  define cb where "cb = fst (snd (snd p))"
  define c where "c = fc_callable cl"
  define stacktop where "stacktop = length (th_stack L) - (if call then 1 else 0)"
  define st0 where "st0 = \<lparr>cb_stack = th_stack L, cb_npos = 0, cb_ret = None,
     cb_args = native_args, cb_trace = [Ev_mutex_lock]\<rparr>"
  have p: "callback_prepare_call te (fc_callback cl) th = (L, call, cb, [Ev_mutex_lock])"
    using callback_prepare_trace[of te "fc_callback cl" th]
    unfolding L_def call_def cb_def p_def by (simp add: prod_eq_iff)
  obtain st1 where st1: "callback_self m c st0 = Inr st1"
    using callback_self_ok[of c m st0] self unfolding c_def by blast
  define st2 where "st2 = fold (callback_in m c) [0..<nargs c] st1"
  define r where "r = callback_invoke te c cb call stacktop st2"
  have res: "fst r = Inr LUA_OK" unfolding r_def using ok by (rule callback_invoke_ok)
  define st4 where "st4 = (snd r)\<lparr>cb_npos := stacktop + 1\<rparr>"
  obtain st5 where st5: "callback_results m c LUA_OK st4 = Inr st5"
     "cb_trace st5 = cb_trace st4 @ out_trace m c (cb_stack st4) (cb_npos st4) (out_slots c)"
    using callback_results_ok[of m c st4] by blast
  define gc where "gc = (if autodestroy cl then [Ev_guard_create] else [])"
  have "fst (closure_callback m te cl th native_args) = Inr ()
     \<and> cb_trace (snd (closure_callback m te cl th native_args)) = cb_trace st5 @ gc @ [Ev_mutex_unlock]"
    unfolding closure_callback_def p
    using st1 res st5(1) unfolding st4_def
    by (simp add: Let_def c_def[symmetric] st0_def[symmetric] stacktop_def[symmetric]
          st2_def[symmetric] r_def[symmetric] split_beta gc_def)
  then show ?thesis using st5(2) unfolding gc_def c_def by auto
qed

text \<open>
  C9. When the target has run without error, the outputs of a trampoline are marshalled
  one after the other in declared order (the return value first when the type is not
  void, then the visible output parameters), each from the next stack position and each
  with the stack as the target left it: whatever a marshaller pushes is popped again, after
  a warning with the number of values, before the next output is marshalled. No number of
  temporaries makes this step fail, and the whole invocation returns to the native caller
  (given a receiver of a kind the trampoline can wrap), ending with the guard of an
  autodestroy closure and the release of the mutex. The code warns for any nonzero number,
  whatever the ownership-transfer rule of the output.
\<close>

theorem trampoline_outputs_discard_excess:
  "(\<exists>st'. callback_results m c LUA_OK st = Inr st'
       \<and> cb_stack st' = cb_stack st
       \<and> cb_npos st' = cb_npos st + length (out_slots c)
       \<and> cb_trace st' = cb_trace st @ out_trace m c (cb_stack st) (cb_npos st) (out_slots c))
   \<and> ((\<forall>t a. fst (run_target te t a) = LUA_OK)
       \<and> (has_self (fc_callable cl) \<longrightarrow> container_type (info (fc_callable cl))
             \<in> {INFO_OBJECT, INFO_INTERFACE, INFO_STRUCT, INFO_UNION})
      \<longrightarrow> fst (closure_callback m te cl th native_args) = Inr ()
        \<and> (\<exists>pre L npos. cb_trace (snd (closure_callback m te cl th native_args)) =
              pre @ out_trace m (fc_callable cl) L npos (out_slots (fc_callable cl))
              @ (if autodestroy cl then [Ev_guard_create] else []) @ [Ev_mutex_unlock]))"
  using callback_results_ok[of m c st] closure_callback_ok[of te cl m th native_args]
  by blast

theorem trampoline_outputs_discard_excess_witness:
  "fst (closure_callback (ex_marshal 2 None) (ex_target LUA_OK [LNumber 10, LNumber 20])
          out_closure running_thread [0, 0]) = Inr ()
   \<and> cb_trace (snd (closure_callback (ex_marshal 2 None)
          (ex_target LUA_OK [LNumber 10, LNumber 20]) out_closure running_thread [0, 0]))
     = [Ev_mutex_lock, Ev_marshal_arg_2lua (Some 0), Ev_call,
        Ev_marshal_arg_2c None 2, Ev_warning None 2,
        Ev_marshal_arg_2c (Some 1) 3, Ev_warning (Some 1) 2,
        Ev_guard_create, Ev_mutex_unlock]
   \<and> cb_stack (snd (closure_callback (ex_marshal 2 None)
          (ex_target LUA_OK [LNumber 10, LNumber 20]) out_closure running_thread [0, 0]))
     = [LNumber 99]"
proof -
  have a: "\<forall>t a. fst (run_target (ex_target LUA_OK [LNumber 10, LNumber 20]) t a) = LUA_OK"
    by (simp add: ex_target_def)
  have b: "has_self (fc_callable out_closure) \<longrightarrow> container_type (info (fc_callable out_closure))
             \<in> {INFO_OBJECT, INFO_INTERFACE, INFO_STRUCT, INFO_UNION}"
    by (simp add: out_closure_def ex_callable_def)
  have t: "cb_trace (snd (closure_callback (ex_marshal 2 None)
          (ex_target LUA_OK [LNumber 10, LNumber 20]) out_closure running_thread [0, 0]))
     = [Ev_mutex_lock, Ev_marshal_arg_2lua (Some 0), Ev_call,
        Ev_marshal_arg_2c None 2, Ev_warning None 2,
        Ev_marshal_arg_2c (Some 1) 3, Ev_warning (Some 1) 2,
        Ev_guard_create, Ev_mutex_unlock]"
    by code_simp
  have s: "cb_stack (snd (closure_callback (ex_marshal 2 None)
          (ex_target LUA_OK [LNumber 10, LNumber 20]) out_closure running_thread [0, 0]))
     = [LNumber 99]"
    by code_simp
  show ?thesis
    using a b t s trampoline_outputs_discard_excess
      [of "ex_marshal 2 None" "fc_callable out_closure" _
          "ex_target LUA_OK [LNumber 10, LNumber 20]" out_closure running_thread "[0, 0]"]
    by blast
qed

subsection \<open>The call mutex\<close>

text \<open>
  C5. In the trace of a forward invocation the release of the mutex, the native call and
  the re-acquisition follow each other directly, and nothing before or after them touches
  the mutex or calls native code. The trace of a trampoline invocation starts with the
  acquisition of the mutex; the mutex is not touched again until the release, which is the
  last operation before the trampoline returns to its native caller. When the target runs
  without error (and the receiver, if any, is of a kind the trampoline can wrap), the
  trampoline does return, so its trace is the acquisition, a body that does not touch the
  mutex, and the release. (When an error leaves the trampoline instead, the trace has no
  release.)
\<close>

theorem mutex_released_only_around_native_call:
  "(\<exists>pre post. snd (callable_call m c L)
        = pre @ [Ev_mutex_unlock, Ev_ffi_call, Ev_mutex_lock] @ post
       \<and> guard_free pre \<and> guard_free post)
   \<and> (\<exists>body. cb_trace (snd (closure_callback m' te cl th native_args)) =
         Ev_mutex_lock # body
         @ (if fst (closure_callback m' te cl th native_args) = Inr ()
            then [Ev_mutex_unlock] else [])
       \<and> guard_free body)
   \<and> ((\<forall>t a. fst (run_target te t a) = LUA_OK)
       \<and> (has_self (fc_callable cl) \<longrightarrow> container_type (info (fc_callable cl))
             \<in> {INFO_OBJECT, INFO_INTERFACE, INFO_STRUCT, INFO_UNION})
      \<longrightarrow> fst (closure_callback m' te cl th native_args) = Inr ()
        \<and> (\<exists>body. cb_trace (snd (closure_callback m' te cl th native_args)) =
              Ev_mutex_lock # body @ [Ev_mutex_unlock]
            \<and> guard_free body))"
proof -
  obtain pre out where t: "quiet pre" "quiet out"
     "snd (callable_call m c L) =
       pre @ [Ev_mutex_unlock, Ev_ffi_call, Ev_mutex_lock] @ out @
       (case native_error m c L of
          Some e \<Rightarrow> (if tag (ti (retval c)) = VOID then [Ev_push (LBool False)] else [])
                    @ [Ev_push (LString (message e)), Ev_push (LNumber (code e))]
        | None \<Rightarrow> (if visible_outputs c = 0 \<and> throws c then [Ev_push (LBool True)] else []))"
    using callable_call_trace[of m c L] by blast
  define post where "post = out @
       (case native_error m c L of
          Some e \<Rightarrow> (if tag (ti (retval c)) = VOID then [Ev_push (LBool False)] else [])
                    @ [Ev_push (LString (message e)), Ev_push (LNumber (code e))]
        | None \<Rightarrow> (if visible_outputs c = 0 \<and> throws c then [Ev_push (LBool True)] else []))"
  have "guard_free post" using t(2) unfolding post_def
    by (auto simp: quiet_def split: option.splits)
  moreover have "guard_free pre" using t(1) by (simp add: quiet_def)
  moreover have "snd (callable_call m c L)
      = pre @ [Ev_mutex_unlock, Ev_ffi_call, Ev_mutex_lock] @ post"
    using t(3) by (simp add: post_def)
  ultimately have fw: "\<exists>pre post. snd (callable_call m c L)
        = pre @ [Ev_mutex_unlock, Ev_ffi_call, Ev_mutex_lock] @ post
       \<and> guard_free pre \<and> guard_free post"
    by blast
  note tr = closure_callback_trace[of m' te cl th native_args]
  have ret: "fst (closure_callback m' te cl th native_args) = Inr ()
        \<and> (\<exists>body. cb_trace (snd (closure_callback m' te cl th native_args)) =
              Ev_mutex_lock # body @ [Ev_mutex_unlock]
            \<and> guard_free body)"
    if h: "(\<forall>t a. fst (run_target te t a) = LUA_OK)
       \<and> (has_self (fc_callable cl) \<longrightarrow> container_type (info (fc_callable cl))
             \<in> {INFO_OBJECT, INFO_INTERFACE, INFO_STRUCT, INFO_UNION})"
  proof -
    have r: "fst (closure_callback m' te cl th native_args) = Inr ()"
      using closure_callback_ok[of te cl m' th native_args] h by blast
    then show ?thesis using tr by simp
  qed
  show ?thesis using fw tr ret by blast
qed

theorem mutex_released_only_around_native_call_witness:
  "snd (callable_call (ex_marshal 1 None) get_iter_callable [LUserdata 0])
     = [Ev_caller_alloc 0, Ev_mutex_unlock, Ev_ffi_call, Ev_mutex_lock,
        Ev_marshal_arg_2lua None, Ev_caller_alloc 0]
   \<and> (\<exists>pre post. snd (callable_call (ex_marshal 1 None) get_iter_callable [LUserdata 0])
        = pre @ [Ev_mutex_unlock, Ev_ffi_call, Ev_mutex_lock] @ post
       \<and> guard_free pre \<and> guard_free post)
   \<and> fst (closure_callback (ex_marshal 1 None)
            (ex_target LUA_OK [LNumber 10, LNumber 20]) out_closure running_thread [0, 0])
       = Inr ()
   \<and> cb_trace (snd (closure_callback (ex_marshal 1 None)
            (ex_target LUA_OK [LNumber 10, LNumber 20]) out_closure running_thread [0, 0]))
       = [Ev_mutex_lock, Ev_marshal_arg_2lua (Some 0), Ev_call,
          Ev_marshal_arg_2c None 2, Ev_warning None 1,
          Ev_marshal_arg_2c (Some 1) 3, Ev_warning (Some 1) 1,
          Ev_guard_create, Ev_mutex_unlock]
   \<and> (\<exists>body. cb_trace (snd (closure_callback (ex_marshal 1 None)
            (ex_target LUA_OK [LNumber 10, LNumber 20]) out_closure running_thread [0, 0]))
         = Ev_mutex_lock # body @ [Ev_mutex_unlock]
       \<and> guard_free body)"
proof -
  have t: "snd (callable_call (ex_marshal 1 None) get_iter_callable [LUserdata 0])
     = [Ev_caller_alloc 0, Ev_mutex_unlock, Ev_ffi_call, Ev_mutex_lock,
        Ev_marshal_arg_2lua None, Ev_caller_alloc 0]"
    by code_simp
  have u: "cb_trace (snd (closure_callback (ex_marshal 1 None)
            (ex_target LUA_OK [LNumber 10, LNumber 20]) out_closure running_thread [0, 0]))
       = [Ev_mutex_lock, Ev_marshal_arg_2lua (Some 0), Ev_call,
          Ev_marshal_arg_2c None 2, Ev_warning None 1,
          Ev_marshal_arg_2c (Some 1) 3, Ev_warning (Some 1) 1,
          Ev_guard_create, Ev_mutex_unlock]"
    by code_simp
  have a: "\<forall>t a. fst (run_target (ex_target LUA_OK [LNumber 10, LNumber 20]) t a) = LUA_OK"
    by (simp add: ex_target_def)
  have b: "has_self (fc_callable out_closure) \<longrightarrow> container_type (info (fc_callable out_closure))
             \<in> {INFO_OBJECT, INFO_INTERFACE, INFO_STRUCT, INFO_UNION}"
    by (simp add: out_closure_def ex_callable_def)
  note th = mutex_released_only_around_native_call
      [of "ex_marshal 1 None" get_iter_callable "[LUserdata 0]" "ex_marshal 1 None"
          "ex_target LUA_OK [LNumber 10, LNumber 20]" out_closure running_thread "[0, 0]"]
  have f: "\<exists>pre post. snd (callable_call (ex_marshal 1 None) get_iter_callable [LUserdata 0])
        = pre @ [Ev_mutex_unlock, Ev_ffi_call, Ev_mutex_lock] @ post
       \<and> guard_free pre \<and> guard_free post"
    using th by blast
  have r: "fst (closure_callback (ex_marshal 1 None)
            (ex_target LUA_OK [LNumber 10, LNumber 20]) out_closure running_thread [0, 0])
       = Inr ()
     \<and> (\<exists>body. cb_trace (snd (closure_callback (ex_marshal 1 None)
            (ex_target LUA_OK [LNumber 10, LNumber 20]) out_closure running_thread [0, 0]))
         = Ev_mutex_lock # body @ [Ev_mutex_unlock]
       \<and> guard_free body)"
    using th a b by blast
  show ?thesis using t u f r by blast
qed

subsection \<open>The error path and the resume path, in general\<close>

lemma lua_insert_top: "lua_insert (- 1) (S @ [v]) = S @ [v]"
  by (simp add: lua_insert_def Let_def)

lemma lua_return_append: "lua_return (length xs) (S @ xs) = xs"
  by (simp add: lua_return_def)

text \<open>When the native call leaves an error and no caller-allocated value lies on the
  stack, the values returned are the return value (a false value when the type is void),
  the message and the code.\<close>

lemma error_result_without_caller_allocated:
  assumes "native_error m c L = Some e"
    and "caller_allocated (call_inputs m c L) = 0"
  shows "fst (callable_call m c L) =
     Inr [if tag (ti (retval c)) \<noteq> VOID
          then marshal_arg_2lua m (ti (retval c)) (transfer (retval c))
                 (nr_retval (ffi_call m (cif c) (address c) (args (call_inputs m c L))))
          else LBool False,
          LString (message e), LNumber (code e)]"
  unfolding callable_call_Some[OF assms(1)]
  using assms(2)
  using lua_return_append[of "[v, LString (message e), LNumber (code e)]" S for v S]
  by (simp add: call_native_def Let_def lua_insert_top)

text \<open>The result of \<^verbatim>\<open>lua_resume\<close> as the trampoline treats it: a yield counts as a
  return; a runtime error is raised again unless the plan reports errors; every other
  status is handed on as \<^verbatim>\<open>res\<close>.\<close>

lemma resume_outcomes:
  "fst (callback_invoke te c cb False stacktop st) =
     (let r = run_target te (target_ref cb) (lua_return (cb_npos st) (cb_stack st)) in
      case fst r of
        LUA_OK \<Rightarrow> Inr LUA_OK
      | LUA_YIELD \<Rightarrow> Inr LUA_OK
      | LUA_ERRRUN \<Rightarrow>
          (if throws c then Inr LUA_ERRRUN
           else Inl (Thrown (lua_top (take stacktop (cb_stack st) @ snd r))))
      | LUA_ERRSYNTAX \<Rightarrow> Inr LUA_ERRSYNTAX
      | LUA_ERRMEM \<Rightarrow> Inr LUA_ERRMEM
      | LUA_ERRERR \<Rightarrow> Inr LUA_ERRERR)"
  by (simp add: callback_invoke_def Let_def split_beta split: lua_status.splits)

subsection \<open>Defects shown by running the code\<close>

text \<open>
  C1 fails on the code. A closure companion at index 0 is not marked internal: the test on
  the closure and destroy indices is \<^verbatim>\<open>arg > 0\<close>, where the array-length path tests
  \<^verbatim>\<open>arg >= 0\<close>. The plan built for \<open>closure0_info\<close> leaves both parameters visible, while
  a length companion at index 0 and a closure companion at index 1 are marked.
\<close>

theorem closure_companion_at_index_0_not_marked:
  "map_option (map internal \<circ> params)
     (userdata (snd (lgi_callable_create (ex_gi_env 8) ex_state closure0_info None)) 0)
     = Some [False, False]
   \<and> map_option (map internal \<circ> params)
     (userdata (snd (lgi_callable_create (ex_gi_env 8) ex_state length0_info None)) 0)
     = Some [True, False]
   \<and> map_option (map internal \<circ> params)
     (userdata (snd (lgi_callable_create (ex_gi_env 8) ex_state closure1_info None)) 0)
     = Some [False, True]"
  by code_simp

text \<open>
  C2 fails on the code. With a non-void return type and a caller-allocated output, the
  pre-created output value lies above the marshalled return value when the error is
  pushed, and the three values returned are that output, the message and the code: the
  leading value is an output parameter, neither a falsy value nor the return value.
\<close>

theorem error_result_leads_with_caller_allocated_output:
  "fst (callable_call (ex_marshal 0 (Some \<lparr>message = ''boom'', code = 42\<rparr>))
          get_iter_callable [LUserdata 0])
     = Inr [LUserdata 3, LString ''boom'', LNumber 42]
   \<and> caller_alloc (ex_marshal 0 None) (ti (params get_iter_callable ! 0))
       = Some (9, LUserdata 3)
   \<and> marshal_arg_2lua (ex_marshal 0 None) (ti (retval get_iter_callable))
        (transfer (retval get_iter_callable)) 0 = LNumber 0"
  by code_simp

text \<open>
  C6 fails on the code. A resume that fails with a status other than \<^verbatim>\<open>LUA_ERRRUN\<close>
  (here \<^verbatim>\<open>LUA_ERRMEM\<close>) on a plan that does not report errors is not re-raised: the
  trampoline goes on to the error branch and reads the slot after the declared arguments,
  which the frame does not have. \<^verbatim>\<open>lgi_gclosure_marshal\<close> re-raises the same failure, and
  the failure with status \<^verbatim>\<open>LUA_ERRRUN\<close> is re-raised by both.
\<close>

theorem resume_errmem_not_reraised:
  "fst (closure_callback (ex_marshal 0 None)
          (ex_target LUA_ERRMEM [LString ''not enough memory''])
          resume_closure suspended_thread [])
     = Inl (InvalidRead 0)
   \<and> fst (closure_callback (ex_marshal 0 None)
          (ex_target LUA_ERRRUN [LString ''not enough memory''])
          resume_closure suspended_thread [])
     = Inl (Thrown (LString ''not enough memory''))
   \<and> fst (lgi_gclosure_marshal LNumber (\<lambda>v. 0)
          (ex_target LUA_ERRMEM [LString ''not enough memory''])
          \<lparr>gc_callback = fc_callback resume_closure\<rparr> suspended_thread [])
     = Inl (Thrown (LString ''not enough memory''))"
  by code_simp

end
